theory Spec2Isabelle
  imports Main "HOL-Library.Word"
begin

section \<open>JavaScript strings\<close>

text \<open>
  A JavaScript string is a sequence of UTF-16 code units. The functions of the
  repository that look at single characters (the two name generators of
  \<open>DriveRepository\<close>) are modelled on such sequences; a regular expression without the
  \<open>u\<close> flag works code unit by code unit. Names, ids and messages that the code only
  copies and compares are plain \<open>string\<close>s.
\<close>

type_synonym jschar = "16 word"
type_synonym jsstring = "jschar list"

definition js :: "string \<Rightarrow> jsstring" where
  "js s = map of_char s"

definition ch_dot :: jschar where "ch_dot = 0x2E"
definition ch_slash :: jschar where "ch_slash = 0x2F"
definition ch_hyphen :: jschar where "ch_hyphen = 0x2D"
definition ch_underscore :: jschar where "ch_underscore = 0x5F"

text \<open>The character classes \<open>a-z\<close>, \<open>A-Z\<close> and \<open>0-9\<close>.\<close>

definition is_lower :: "jschar \<Rightarrow> bool" where
  "is_lower c = (0x61 \<le> c \<and> c \<le> 0x7A)"

definition is_upper :: "jschar \<Rightarrow> bool" where
  "is_upper c = (0x41 \<le> c \<and> c \<le> 0x5A)"

definition is_digit :: "jschar \<Rightarrow> bool" where
  "is_digit c = (0x30 \<le> c \<and> c \<le> 0x39)"

text \<open>
  The class \<open>\s\<close> of ECMAScript: WhiteSpace (tab, vertical tab, form feed, space,
  no-break space, the byte order mark and the space separators of Unicode) and
  LineTerminator (line feed, carriage return, U+2028, U+2029). \<open>String.prototype.trim\<close>
  strips the same set.
\<close>

definition is_space :: "jschar \<Rightarrow> bool" where
  "is_space c =
     ((0x09 \<le> c \<and> c \<le> 0x0D) \<or> c = 0x20 \<or> c = 0xA0 \<or> c = 0x1680
      \<or> (0x2000 \<le> c \<and> c \<le> 0x200A) \<or> c = 0x2028 \<or> c = 0x2029 \<or> c = 0x202F
      \<or> c = 0x205F \<or> c = 0x3000 \<or> c = 0xFEFF)"

section \<open>NamingPolicy: generateFolderName\<close>

text \<open>
  \<^verbatim>\<open>
  generateFolderName(originalname) {
    return originalname
      .replace(/\.[^/.]+$/, '')             // Eliminar extension
      .replace(/[^a-zA-Z0-9\s\-_]/g, '')   // Eliminar caracteres especiales
      .replace(/\s+/g, '_')                 // Espacios -> guiones bajos
      .trim();
  }
  \<close>
\<close>

text \<open>
  \<open>/\.[^/.]+$/\<close> anchored at the head of \<open>s\<close>: a dot, then one or more code units
  that are neither a slash nor a dot, up to the end of the input.
\<close>

fun ext_match :: "jsstring \<Rightarrow> bool" where
  "ext_match [] = False"
| "ext_match (c # r) = (c = ch_dot \<and> r \<noteq> [] \<and> list_all (\<lambda>d. d \<noteq> ch_slash \<and> d \<noteq> ch_dot) r)"

text \<open>
  \<open>.replace(/\.[^/.]+$/, '')\<close>: the search tries every start position from the left;
  the first match runs to the end of the input and is replaced by the empty string.
\<close>

fun stripExtension :: "jsstring \<Rightarrow> jsstring" where
  "stripExtension [] = []"
| "stripExtension (c # r) = (if ext_match (c # r) then [] else c # stripExtension r)"

text \<open>The class \<open>[a-zA-Z0-9\s\-_]\<close>, and \<open>.replace(/[^a-zA-Z0-9\s\-_]/g, '')\<close>.\<close>

definition keeps :: "jschar \<Rightarrow> bool" where
  "keeps c = (is_lower c \<or> is_upper c \<or> is_digit c \<or> is_space c \<or> c = ch_hyphen \<or> c = ch_underscore)"

definition removeSpecial :: "jsstring \<Rightarrow> jsstring" where
  "removeSpecial s = filter keeps s"

text \<open>\<open>.replace(/\s+/g, '_')\<close>: every maximal run of \<open>\s\<close> becomes one underscore.\<close>

function replaceSpaces :: "jsstring \<Rightarrow> jsstring" where
  "replaceSpaces [] = []"
| "replaceSpaces (c # r) =
     (if is_space c then ch_underscore # replaceSpaces (dropWhile is_space r)
      else c # replaceSpaces r)"
  by pat_completeness auto
termination
  by (relation "measure length") (auto simp: less_Suc_eq_le length_dropWhile_le)

text \<open>\<open>.trim()\<close>: white space and line terminators are dropped at both ends.\<close>

definition trim :: "jsstring \<Rightarrow> jsstring" where
  "trim s = rev (dropWhile is_space (rev (dropWhile is_space s)))"

definition generateFolderName :: "jsstring \<Rightarrow> jsstring" where
  "generateFolderName originalname =
     trim (replaceSpaces (removeSpecial (stripExtension originalname)))"

text \<open>
  The alphabet of a finished folder name: letters, digits, hyphen and underscore.
\<close>

definition name_char :: "jschar \<Rightarrow> bool" where
  "name_char c = (is_lower c \<or> is_upper c \<or> is_digit c \<or> c = ch_hyphen \<or> c = ch_underscore)"

section \<open>NamingPolicy: generateDayFolderName\<close>

text \<open>
  \<^verbatim>\<open>
  generateDayFolderName() {
    return new Intl.DateTimeFormat('es-ES', {
      timeZone: 'Europe/Madrid', day: '2-digit', month: '2-digit', year: 'numeric',
    }).format(new Date()).replace(/\//g, '-');
  }
  \<close>
  The clock, the host's own time zone and the time zone database belong to the platform.
  The host is a record of what \<open>new Date()\<close> reads and of the zone the process runs
  in; the database is a parameter \<open>tz\<close> that gives the civil date of an instant
  (milliseconds since the epoch) in a named zone.
\<close>

record civil_date =
  cd_day :: nat
  cd_month :: nat
  cd_year :: nat

record host =
  host_now :: int
  host_timezone :: string

text \<open>Decimal digits of a number, most significant first.\<close>

fun decimal :: "nat \<Rightarrow> nat list" where
  "decimal n = (if n < 10 then [n] else decimal (n div 10) @ [n mod 10])"

declare decimal.simps [simp del]

definition digit :: "nat \<Rightarrow> jschar" where
  "digit n = 0x30 + of_nat n"

definition two_digit :: "nat \<Rightarrow> jsstring" where
  "two_digit n = [digit (n div 10 mod 10), digit (n mod 10)]"

definition numeric :: "nat \<Rightarrow> jsstring" where
  "numeric n = map digit (decimal n)"

text \<open>
  \<open>Intl.DateTimeFormat('es-ES', {timeZone, day: '2-digit', month: '2-digit', year:
  'numeric'}).format(date)\<close>: the Spanish pattern is day/month/year. The formatter works
  in the zone of its \<open>timeZone\<close> option and falls back to the host's zone only when the
  option is absent.
\<close>

definition intl_format_es :: "(string \<Rightarrow> int \<Rightarrow> civil_date) \<Rightarrow> host \<Rightarrow> string option \<Rightarrow> int \<Rightarrow> jsstring" where
  "intl_format_es tz h timeZone date =
     (let d = tz (case timeZone of Some z \<Rightarrow> z | None \<Rightarrow> host_timezone h) date
      in two_digit (cd_day d) @ [ch_slash] @ two_digit (cd_month d) @ [ch_slash] @ numeric (cd_year d))"

text \<open>\<open>.replace(/\//g, '-')\<close>\<close>

definition replaceSlashes :: "jsstring \<Rightarrow> jsstring" where
  "replaceSlashes s = map (\<lambda>c. if c = ch_slash then ch_hyphen else c) s"

definition generateDayFolderName :: "(string \<Rightarrow> int \<Rightarrow> civil_date) \<Rightarrow> host \<Rightarrow> jsstring" where
  "generateDayFolderName tz h =
     replaceSlashes (intl_format_es tz h (Some ''Europe/Madrid'') (host_now h))"

text \<open>The shape \<open>DD-MM-YYYY\<close> the docstring promises ("03-02-2026").\<close>

definition dd_mm_yyyy :: "civil_date \<Rightarrow> jsstring" where
  "dd_mm_yyyy d =
     two_digit (cd_day d) @ [ch_hyphen] @ two_digit (cd_month d) @ [ch_hyphen] @ numeric (cd_year d)"

section \<open>The remote store\<close>

text \<open>
  What the repository catches and inspects of a thrown value: \<open>error.code\<close>,
  \<open>error.response.status\<close>, \<open>error.response.data.error\<close> and \<open>error.message\<close>. An
  absent message is the empty string, which \<open>||\<close> treats like \<open>undefined\<close>.
\<close>

record js_error =
  err_code :: "nat option"
  err_status :: "nat option"
  err_data :: "string option"
  err_message :: string

text \<open>
  Google Drive is reached through the injected client \<open>this.drive\<close>. Its state is modelled
  as the list of its files and folders in creation order, the number of ids it has
  issued, the number of requests it will still answer (a request beyond that budget is
  rejected, as a quota or network failure would), and the log of the requests it has
  answered. State is passed explicitly: every operation returns its result, or the
  error it throws, together with the store as it is afterwards.
\<close>

record drive_file =
  df_id :: string
  df_name :: string
  df_mimeType :: string
  df_parents :: "string list"
  df_trashed :: bool
  df_body :: "string option"
  df_permissions :: "(string \<times> string) list"

datatype api_call =
  FilesList string
| FilesCreate string "string list"
| PermissionsCreate string
| FilesGet string

record drive =
  dr_files :: "drive_file list"
  dr_issued :: nat
  dr_budget :: nat
  dr_log :: "api_call list"

definition char_digit :: "nat \<Rightarrow> char" where
  "char_digit n = ''0123456789'' ! n"

definition fresh_id :: "nat \<Rightarrow> string" where
  "fresh_id n = ''id-'' @ map char_digit (decimal n)"

definition quota_error :: js_error where
  "quota_error = \<lparr>err_code = Some 403, err_status = Some 403, err_data = None,
                   err_message = ''Rate Limit Exceeded''\<rparr>"

definition not_found_error :: "string \<Rightarrow> js_error" where
  "not_found_error fileId = \<lparr>err_code = Some 404, err_status = Some 404, err_data = None,
                              err_message = ''File not found: '' @ fileId\<rparr>"

definition invalid_query_error :: js_error where
  "invalid_query_error = \<lparr>err_code = Some 400, err_status = Some 400, err_data = None,
                           err_message = ''Invalid Value''\<rparr>"

text \<open>Every request spends one unit of the budget and is logged once answered.\<close>

definition answered :: "api_call \<Rightarrow> drive \<Rightarrow> drive" where
  "answered c d = d\<lparr>dr_budget := dr_budget d - 1, dr_log := dr_log d @ [c]\<rparr>"

definition request :: "api_call \<Rightarrow> drive \<Rightarrow> drive option" where
  "request c d = (if dr_budget d = 0 then None else Some (answered c d))"

text \<open>
  The search query reaches the store as text. The one query the repository sends is
  \<open>name = 'N' and mimeType = 'M' and 'P' in parents and trashed = false\<close>; the store
  reads a query of that shape and rejects any other text as an invalid query. A string
  literal of the query language runs from its opening quote to the next quote that no
  backslash precedes; a backslash makes the character after it part of the literal.
\<close>

definition sq :: char where
  "sq = CHR 0x27"

definition bs :: char where
  "bs = CHR 0x5C"

text \<open>The body of a literal, its opening quote already read, and the text after it.\<close>

fun literal :: "string \<Rightarrow> (string \<times> string) option" where
  "literal [] = None"
| "literal (c # cs) =
     (if c = sq then Some ([], cs)
      else if c = bs
      then (case cs of
              [] \<Rightarrow> None
            | e # r \<Rightarrow> (case literal r of None \<Rightarrow> None | Some (l, rest) \<Rightarrow> Some (e # l, rest)))
      else (case literal cs of None \<Rightarrow> None | Some (l, rest) \<Rightarrow> Some (c # l, rest)))"

fun expect :: "string \<Rightarrow> string \<Rightarrow> string option" where
  "expect [] s = Some s"
| "expect (c # p) [] = None"
| "expect (c # p) (x # s) = (if c = x then expect p s else None)"

definition parse_query :: "string \<Rightarrow> (string \<times> string \<times> string) option" where
  "parse_query q =
     (case expect (''name = '' @ [sq]) q of
        None \<Rightarrow> None
      | Some r1 \<Rightarrow>
          (case literal r1 of
             None \<Rightarrow> None
           | Some (name, r2) \<Rightarrow>
               (case expect ('' and mimeType = '' @ [sq]) r2 of
                  None \<Rightarrow> None
                | Some r3 \<Rightarrow>
                    (case literal r3 of
                       None \<Rightarrow> None
                     | Some (mimeType, r4) \<Rightarrow>
                         (case expect ('' and '' @ [sq]) r4 of
                            None \<Rightarrow> None
                          | Some r5 \<Rightarrow>
                              (case literal r5 of
                                 None \<Rightarrow> None
                               | Some (parent, r6) \<Rightarrow>
                                   (if r6 = '' in parents and trashed = false''
                                    then Some (name, mimeType, parent) else None)))))))"

text \<open>
  \<open>drive.files.list({ q, pageSize, ... })\<close>: the files that match the query, in
  creation order, \<open>pageSize\<close> at most.
\<close>

definition files_list :: "string \<Rightarrow> nat \<Rightarrow> drive \<Rightarrow> (js_error + drive_file list) \<times> drive" where
  "files_list q pageSize d =
     (case request (FilesList q) d of
        None \<Rightarrow> (Inl quota_error, d)
      | Some d1 \<Rightarrow>
          (case parse_query q of
             None \<Rightarrow> (Inl invalid_query_error, d1)
           | Some (name, mimeType, parent) \<Rightarrow>
               (Inr (take pageSize
                       (filter (\<lambda>f. df_name f = name \<and> df_mimeType f = mimeType
                                     \<and> parent \<in> set (df_parents f) \<and> \<not> df_trashed f)
                          (dr_files d1))), d1)))"

text \<open>\<open>drive.files.create\<close>: the store issues the id of the new file or folder.\<close>

definition files_create :: "string \<Rightarrow> string \<Rightarrow> string list \<Rightarrow> string option \<Rightarrow> drive \<Rightarrow> (js_error + drive_file) \<times> drive" where
  "files_create name mimeType parents body d =
     (case request (FilesCreate name parents) d of
        None \<Rightarrow> (Inl quota_error, d)
      | Some d1 \<Rightarrow>
          (let f = \<lparr>df_id = fresh_id (dr_issued d1), df_name = name, df_mimeType = mimeType,
                    df_parents = parents, df_trashed = False, df_body = body,
                    df_permissions = []\<rparr>
           in (Inr f, d1\<lparr>dr_files := dr_files d1 @ [f], dr_issued := Suc (dr_issued d1)\<rparr>)))"

text \<open>\<open>drive.permissions.create\<close> with \<open>{role, type}\<close> on an existing file.\<close>

definition grant :: "string \<Rightarrow> string \<times> string \<Rightarrow> drive_file \<Rightarrow> drive_file" where
  "grant fileId p f =
     (if df_id f = fileId then f\<lparr>df_permissions := df_permissions f @ [p]\<rparr> else f)"

definition permissions_create :: "string \<Rightarrow> string \<Rightarrow> string \<Rightarrow> drive \<Rightarrow> (js_error + unit) \<times> drive" where
  "permissions_create fileId role type d =
     (case request (PermissionsCreate fileId) d of
        None \<Rightarrow> (Inl quota_error, d)
      | Some d1 \<Rightarrow>
          (if fileId \<in> set (map df_id (dr_files d1))
           then (Inr (), d1\<lparr>dr_files := map (grant fileId (role, type)) (dr_files d1)\<rparr>)
           else (Inl (not_found_error fileId), d1)))"

text \<open>\<open>drive.files.get\<close>\<close>

definition files_get :: "string \<Rightarrow> drive \<Rightarrow> (js_error + drive_file) \<times> drive" where
  "files_get fileId d =
     (case request (FilesGet fileId) d of
        None \<Rightarrow> (Inl quota_error, d)
      | Some d1 \<Rightarrow>
          (case find (\<lambda>f. df_id f = fileId) (dr_files d1) of
             None \<Rightarrow> (Inl (not_found_error fileId), d1)
           | Some f \<Rightarrow> (Inr f, d1)))"

text \<open>Anyone with the link can read the file.\<close>

definition public_read :: "drive \<Rightarrow> string \<Rightarrow> bool" where
  "public_read d fileId =
     list_ex (\<lambda>f. df_id f = fileId \<and> (''reader'', ''anyone'') \<in> set (df_permissions f)) (dr_files d)"

section \<open>DriveRepository\<close>

definition folder_mime :: string where
  "folder_mime = ''application/vnd.google-apps.folder''"



text \<open>
  \<^verbatim>\<open>
  async createFolder(name, parentId) {
    const file = await this.drive.files.create({
      resource: { name, mimeType: 'application/vnd.google-apps.folder', parents: [parentId] }, ...
    });
    return file.data.id;
  }
  \<close>
\<close>

definition createFolder :: "string \<Rightarrow> string \<Rightarrow> drive \<Rightarrow> (js_error + string) \<times> drive" where
  "createFolder name parentId d =
     (case files_create name folder_mime [parentId] None d of
        (Inl e, d1) \<Rightarrow> (Inl e, d1)
      | (Inr file, d1) \<Rightarrow> (Inr (df_id file), d1))"

text \<open>
  A node \<open>{ name, children? }\<close> of the JSON tree handed to
  \<open>createRecursiveFolders\<close>; \<open>children\<close> may be missing.
\<close>

datatype folder = Folder (folder_name: string) (folder_children: "folder list option")

text \<open>
  \<^verbatim>\<open>
  async createRecursiveFolders(folder, parentId) {
    const newFolderId = await this.createFolder(folder.name, parentId);
    if (folder.children && folder.children.length > 0) {
      for (const child of folder.children) {
        await this.createRecursiveFolders(child, newFolderId);
      }
    }
    return newFolderId;
  }
  \<close>
  \<open>createChildren\<close> is the \<open>for\<close> loop; a rejected \<open>await\<close> leaves the loop and the
  function, and the folders made so far stay in the store.
\<close>

fun createRecursiveFolders :: "folder \<Rightarrow> string \<Rightarrow> drive \<Rightarrow> (js_error + string) \<times> drive"
  and createChildren :: "folder list \<Rightarrow> string \<Rightarrow> drive \<Rightarrow> (js_error + unit) \<times> drive" where
  "createRecursiveFolders (Folder name children) parentId d =
     (case createFolder name parentId d of
        (Inl e, d1) \<Rightarrow> (Inl e, d1)
      | (Inr newFolderId, d1) \<Rightarrow>
          (case children of
             None \<Rightarrow> (Inr newFolderId, d1)
           | Some cs \<Rightarrow>
               (if length cs > 0
                then (case createChildren cs newFolderId d1 of
                        (Inl e, d2) \<Rightarrow> (Inl e, d2)
                      | (Inr _, d2) \<Rightarrow> (Inr newFolderId, d2))
                else (Inr newFolderId, d1))))"
| "createChildren [] parentId d = (Inr (), d)"
| "createChildren (child # rest) parentId d =
     (case createRecursiveFolders child parentId d of
        (Inl e, d1) \<Rightarrow> (Inl e, d1)
      | (Inr _, d1) \<Rightarrow> createChildren rest parentId d1)"

text \<open>What \<open>uploadFile\<close> is called with, and the metadata it returns.\<close>

record upload_params =
  up_name :: string
  up_parentId :: string
  up_mimeType :: string
  up_buffer :: string

record file_metadata =
  fm_id :: string
  fm_name :: string
  fm_mimeType :: string
  fm_webContentLink :: string
  fm_webViewLink :: string

definition metadata :: "drive_file \<Rightarrow> file_metadata" where
  "metadata f =
     \<lparr>fm_id = df_id f, fm_name = df_name f, fm_mimeType = df_mimeType f,
      fm_webContentLink = ''https://drive.google.com/uc?id='' @ df_id f,
      fm_webViewLink = ''https://drive.google.com/file/d/'' @ df_id f @ ''/view''\<rparr>"

text \<open>
  \<^verbatim>\<open>
  async uploadFile({ name, parentId, mimeType, buffer }) {
    const response = await this.drive.files.create({
      resource: { name, parents: [parentId] },
      media: { mimeType, body: this.bufferToStream(buffer) }, ... });
    const fileData = response.data;
    // Hacer el archivo publico para lectura
    await this.drive.permissions.create({
      fileId: fileData.id, resource: { role: 'reader', type: 'anyone' }, ... });
    // Re-obtener metadatos con los links ya disponibles
    const updatedFile = await this.drive.files.get({ fileId: fileData.id, ... });
    return updatedFile.data;
  }
  \<close>
\<close>

definition uploadFile :: "upload_params \<Rightarrow> drive \<Rightarrow> (js_error + file_metadata) \<times> drive" where
  "uploadFile p d =
     (case files_create (up_name p) (up_mimeType p) [up_parentId p] (Some (up_buffer p)) d of
        (Inl e, d1) \<Rightarrow> (Inl e, d1)
      | (Inr fileData, d1) \<Rightarrow>
          (case permissions_create (df_id fileData) ''reader'' ''anyone'' d1 of
             (Inl e, d2) \<Rightarrow> (Inl e, d2)
           | (Inr _, d2) \<Rightarrow>
               (case files_get (df_id fileData) d2 of
                  (Inl e, d3) \<Rightarrow> (Inl e, d3)
                | (Inr updatedFile, d3) \<Rightarrow> (Inr (metadata updatedFile), d3))))"

text \<open>
  \<^verbatim>\<open>
  async setPublicReadPermissions(fileId) {
    await this.drive.permissions.create({
      fileId, resource: { role: 'reader', type: 'anyone' }, supportsAllDrives: true });
  }
  \<close>
\<close>

definition setPublicReadPermissions :: "string \<Rightarrow> drive \<Rightarrow> (js_error + unit) \<times> drive" where
  "setPublicReadPermissions fileId d = permissions_create fileId ''reader'' ''anyone'' d"

text \<open>
  Its caller in the controller, \<open>uploadPrototypeExcel\<close>, once the images have been
  extracted:
  \<^verbatim>\<open>
  // Asignar permisos publicos a cada imagen extraida
  id_imagen.archivos.forEach((archivo) => {
    this.driveRepository.setPublicReadPermissions(archivo.id);
  });
  \<close>
  The calls are not awaited, so what they resolve to or reject with is dropped; only
  their effect on the store is left. \<open>archivos\<close> is given by the ids of its entries.
\<close>

definition publicar_imagenes :: "string list \<Rightarrow> drive \<Rightarrow> drive" where
  "publicar_imagenes archivos d =
     foldl (\<lambda>d archivoId. snd (setPublicReadPermissions archivoId d)) d archivos"

text \<open>
  \<^verbatim>\<open>
  _getFolderId(key, label) {
    if (!this.driveIds?.[key]) {
      throw new Error(`Falta ID de carpeta "${label}" (key: ${key}) en drive-ids.json`);
    }
    return this.driveIds[key];
  }
  \<close>
  \<open>driveIds\<close> is the map read from drive-ids.json; a missing or empty entry throws.
\<close>

definition dq :: char where
  "dq = CHR 0x22"

definition js_Error :: "string \<Rightarrow> js_error" where
  "js_Error msg = \<lparr>err_code = None, err_status = None, err_data = None, err_message = msg\<rparr>"

definition getFolderId :: "(string \<rightharpoonup> string) \<Rightarrow> string \<Rightarrow> string \<Rightarrow> js_error + string" where
  "getFolderId driveIds key label =
     (case driveIds key of
        None \<Rightarrow> Inl (js_Error (''Falta ID de carpeta '' @ [dq] @ label @ [dq] @ '' (key: '' @ key
                                 @ '') en drive-ids.json''))
      | Some v \<Rightarrow>
          (if v = []
           then Inl (js_Error (''Falta ID de carpeta '' @ [dq] @ label @ [dq] @ '' (key: '' @ key
                                 @ '') en drive-ids.json''))
           else Inr v))"

definition getIntrastatVentasFolderId :: "(string \<rightharpoonup> string) \<Rightarrow> js_error + string" where
  "getIntrastatVentasFolderId driveIds = getFolderId driveIds ''intrastat_ventas'' ''Intrastat ventas''"

definition getIntrastatComprasFolderId :: "(string \<rightharpoonup> string) \<Rightarrow> js_error + string" where
  "getIntrastatComprasFolderId driveIds = getFolderId driveIds ''intrastat_compras'' ''Intrastat compras''"

definition getNominasAsesoriasFolderID :: "(string \<rightharpoonup> string) \<Rightarrow> js_error + string" where
  "getNominasAsesoriasFolderID driveIds =
     getFolderId driveIds ''nominas_asesorias'' (''N'' @ [CHR 0xF3] @ ''minas asesor'' @ [CHR 0xED] @ ''as'')"

definition getNominasNominasFolderID :: "(string \<rightharpoonup> string) \<Rightarrow> js_error + string" where
  "getNominasNominasFolderID driveIds =
     getFolderId driveIds ''nominas_nominas'' (''N'' @ [CHR 0xF3] @ ''minas n'' @ [CHR 0xF3] @ ''minas'')"

definition getInventarioFolderID :: "(string \<rightharpoonup> string) \<Rightarrow> js_error + string" where
  "getInventarioFolderID driveIds = getFolderId driveIds ''inventario'' ''Inventario''"

section \<open>FolderResolver\<close>







text \<open>
  The folders a tree is expected to yield, in depth-first pre-order, when the store has
  issued \<open>k\<close> ids before: each node takes the next id, its children take it as their
  parent.
\<close>

fun nodes :: "folder \<Rightarrow> nat"
  and nodes_list :: "folder list \<Rightarrow> nat" where
  "nodes (Folder name children) = Suc (case children of None \<Rightarrow> 0 | Some cs \<Rightarrow> nodes_list cs)"
| "nodes_list [] = 0"
| "nodes_list (c # cs) = nodes c + nodes_list cs"

definition new_folder :: "nat \<Rightarrow> string \<Rightarrow> string \<Rightarrow> drive_file" where
  "new_folder k name parentId =
     \<lparr>df_id = fresh_id k, df_name = name, df_mimeType = folder_mime, df_parents = [parentId],
      df_trashed = False, df_body = None, df_permissions = []\<rparr>"

fun preorder :: "folder \<Rightarrow> string \<Rightarrow> nat \<Rightarrow> drive_file list"
  and preorder_list :: "folder list \<Rightarrow> string \<Rightarrow> nat \<Rightarrow> drive_file list" where
  "preorder (Folder name children) parentId k =
     new_folder k name parentId
       # (case children of None \<Rightarrow> [] | Some cs \<Rightarrow> preorder_list cs (fresh_id k) (Suc k))"
| "preorder_list [] parentId k = []"
| "preorder_list (c # cs) parentId k = preorder c parentId k @ preorder_list cs parentId (k + nodes c)"

text \<open>
  The store after the folders or files \<open>fs\<close> have been created in it one by one, by
  \<open>drive.files.create\<close> requests and nothing else.
\<close>

definition created :: "drive_file list \<Rightarrow> drive \<Rightarrow> drive" where
  "created fs d =
     d\<lparr>dr_files := dr_files d @ fs, dr_issued := dr_issued d + length fs,
       dr_budget := dr_budget d - length fs,
       dr_log := dr_log d @ map (\<lambda>f. FilesCreate (df_name f) (df_parents f)) fs\<rparr>"

definition empty_drive :: "nat \<Rightarrow> drive" where
  "empty_drive budget = \<lparr>dr_files = [], dr_issued = 0, dr_budget = budget, dr_log = []\<rparr>"

text \<open>The tree of the spec's example: A with the children B and C, C with the child D.\<close>

definition tree_abcd :: folder where
  "tree_abcd =
     Folder ''A'' (Some [Folder ''B'' (Some []), Folder ''C'' (Some [Folder ''D'' (Some [])])])"

text \<open>A plain document upload: a PDF of an order, sent to an internal folder.\<close>

definition pedido_pdf :: upload_params where
  "pedido_pdf = \<lparr>up_name = ''pedido.pdf'', up_parentId = ''versace_pedidos'',
                  up_mimeType = ''application/pdf'', up_buffer = ''%PDF-1.7''\<rparr>"

text \<open>A time zone database in which it is 3 February 2026 in Madrid and the 2nd elsewhere.\<close>

definition madrid_feb3 :: "string \<Rightarrow> int \<Rightarrow> civil_date" where
  "madrid_feb3 z t =
     (if z = ''Europe/Madrid'' then \<lparr>cd_day = 3, cd_month = 2, cd_year = 2026\<rparr>
      else \<lparr>cd_day = 2, cd_month = 2, cd_year = 2026\<rparr>)"

section \<open>GoogleController: requests, use cases and responses\<close>

text \<open>A file as multer hands it over (memory storage).\<close>

record multer_file =
  originalname :: string
  mimetype :: string
  buffer :: string

text \<open>
  The use cases are injected into the controller; their files
  (upload_pdf_drive.usecase.js, upload_excel_drive.usecase.js) are not part of the
  sources at hand, so they are parameters of the model. Each is a function on an
  arbitrary world \<open>'w\<close> (the remote store and whatever else it touches) that returns the
  value it resolves to, or the error it rejects with, and the world afterwards. The
  world is threaded through the calls in the order in which the controller issues them;
  how the awaits of calls in flight interleave is not represented.
\<close>

text \<open>
  The argument of \<open>uploadPdfUseCase.execute\<close>:
  \<open>{ file, originalname, mimetype, buffer, parentFolderId }\<close>, where the three
  middle fields repeat those of \<open>file\<close>.
\<close>

record pdf_upload =
  pu_file :: multer_file
  pu_parentFolderId :: string

record pdf_result =
  pr_id :: string
  pr_name :: string
  pr_webViewLink :: string
  pr_webContentLink :: string
  pr_targetFolderId :: "string option"
  pr_folderName :: "string option"

record 'w uploadPdfUseCase =
  execute :: "pdf_upload \<Rightarrow> 'w \<Rightarrow> (js_error + pdf_result) \<times> 'w"
  executeFolderDia :: "string \<Rightarrow> 'w \<Rightarrow> (js_error + string) \<times> 'w"

text \<open>
  \<open>getOrCreateMesAnio({ parentFolderId, mes, anio })\<close>,
  \<open>createFolderIfNotExists({ folderName, parentFolderId })\<close> and
  \<open>uploadFileToFolder({ originalname, mimetype, buffer, folderId })\<close>.
\<close>

record 'w uploadExcelUseCase =
  getOrCreateMesAnio :: "string \<times> string \<times> string \<Rightarrow> 'w \<Rightarrow> (js_error + string) \<times> 'w"
  createFolderIfNotExists :: "string \<times> string \<Rightarrow> 'w \<Rightarrow> (js_error + string) \<times> 'w"
  uploadFileToFolder :: "multer_file \<times> string \<Rightarrow> 'w \<Rightarrow> (js_error + file_metadata) \<times> 'w"

text \<open>The JSON bodies the handlers answer with.\<close>

record exitoso =
  ex_id :: string
  ex_name :: string
  ex_webViewLink :: string
  ex_webContentLink :: string
  ex_folderId :: "string option"
  ex_folderName :: "string option"

record fallido =
  fa_archivo :: string
  fa_error :: string

record resumen =
  rs_total :: nat
  rs_exitosos :: nat
  rs_fallidos :: nat

record batch_body =
  bb_message :: string
  bb_exitosos :: "exitoso list"
  bb_fallidos :: "fallido list option"
  bb_resumen :: resumen

record nominas_body =
  nb_id_excel_resumen :: string
  nb_ids_retenciones :: "string list"
  nb_ids_nominas :: "string list"

datatype body = ErrorBody string | BatchBody batch_body | NominasBody nominas_body

record response =
  res_status :: nat
  res_body :: body

text \<open>\<open>x || d\<close> on an optional number and on an optional string.\<close>

definition or_nat :: "nat option \<Rightarrow> nat \<Rightarrow> nat" where
  "or_nat x d = (case x of None \<Rightarrow> d | Some n \<Rightarrow> if n = 0 then d else n)"

definition or_str :: "string option \<Rightarrow> string \<Rightarrow> string" where
  "or_str x d = (case x of None \<Rightarrow> d | Some s \<Rightarrow> if s = [] then d else s)"

text \<open>
  The \<open>catch\<close> block every handler ends with:
  \<^verbatim>\<open>
  const code = error?.code || error?.response?.status || 500;
  return res.status(code).json({
    error: error.response?.data?.error || error.message || "Error interno del servidor.",
  });
  \<close>
\<close>

definition catch_response :: "js_error \<Rightarrow> response" where
  "catch_response error =
     \<lparr>res_status = or_nat (err_code error) (or_nat (err_status error) 500),
      res_body = ErrorBody (or_str (err_data error)
                              (or_str (Some (err_message error)) ''Error interno del servidor.''))\<rparr>"

definition bad_request :: "string \<Rightarrow> response" where
  "bad_request msg = \<lparr>res_status = 400, res_body = ErrorBody msg\<rparr>"

text \<open>\<open>Array.prototype.join\<close> and the decimal form of a number in a template string.\<close>

fun join :: "string \<Rightarrow> string list \<Rightarrow> string" where
  "join sep [] = []"
| "join sep [x] = x"
| "join sep (x # y # ys) = x @ sep @ join sep (y # ys)"

definition show_nat :: "nat \<Rightarrow> string" where
  "show_nat n = map char_digit (decimal n)"

text \<open>
  \<open>Promise.allSettled(items.map(f))\<close>: every call is issued, in the order of the items,
  whatever the others do; the results come back in the order of the items.
\<close>

fun allSettled :: "('a \<Rightarrow> 'w \<Rightarrow> (js_error + 'b) \<times> 'w) \<Rightarrow> 'a list \<Rightarrow> 'w \<Rightarrow> (js_error + 'b) list \<times> 'w" where
  "allSettled f [] w = ([], w)"
| "allSettled f (x # xs) w =
     (case f x w of (r, w1) \<Rightarrow> (case allSettled f xs w1 of (rs, w2) \<Rightarrow> (r # rs, w2)))"

section \<open>GoogleController: uploadIntrastatPDF and uploadInventarioPDF\<close>

text \<open>
  \<^verbatim>\<open>
  const exitosos = [];
  const fallidos = [];
  resultados.forEach((resultado, index) => {
    if (resultado.status === "fulfilled") {
      const pdfResult = resultado.value;
      exitosos.push({ id: pdfResult.id, name: pdfResult.name, webViewLink: pdfResult.webViewLink,
        webContentLink: pdfResult.webContentLink, folderId: pdfResult.targetFolderId,
        folderName: pdfResult.folderName });
    } else {
      fallidos.push({ archivo: files[index].originalname,
        error: resultado.reason?.message || "Error desconocido" });
    }
  });
  \<close>
  \<open>resultados\<close> has one entry per file, so walking it by index is walking the two lists
  side by side.
\<close>

definition to_exitoso :: "pdf_result \<Rightarrow> exitoso" where
  "to_exitoso pdfResult =
     \<lparr>ex_id = pr_id pdfResult, ex_name = pr_name pdfResult,
      ex_webViewLink = pr_webViewLink pdfResult, ex_webContentLink = pr_webContentLink pdfResult,
      ex_folderId = pr_targetFolderId pdfResult, ex_folderName = pr_folderName pdfResult\<rparr>"

definition to_fallido :: "multer_file \<Rightarrow> js_error \<Rightarrow> fallido" where
  "to_fallido file reason =
     \<lparr>fa_archivo = originalname file,
      fa_error = or_str (Some (err_message reason)) ''Error desconocido''\<rparr>"

definition clasificar_paso :: "exitoso list \<times> fallido list \<Rightarrow> multer_file \<times> (js_error + pdf_result) \<Rightarrow> exitoso list \<times> fallido list" where
  "clasificar_paso acc item =
     (case acc of (exitosos, fallidos) \<Rightarrow>
        (case item of
           (file, Inr pdfResult) \<Rightarrow> (exitosos @ [to_exitoso pdfResult], fallidos)
         | (file, Inl reason) \<Rightarrow> (exitosos, fallidos @ [to_fallido file reason])))"

definition clasificar :: "multer_file list \<Rightarrow> (js_error + pdf_result) list \<Rightarrow> exitoso list \<times> fallido list" where
  "clasificar files resultados = foldl clasificar_paso ([], []) (zip files resultados)"

text \<open>
  The part the two handlers share, from the fan-out to the response (the spec's
  \<open>uploadBatch\<close> in its concurrent mode):
  \<^verbatim>\<open>
  const uploadPromises = files.map((file) =>
    this.uploadPdfUseCase.execute({ file: file, originalname: file.originalname,
      mimetype: file.mimetype, buffer: file.buffer, parentFolderId: idCarpeta }));
  const resultados = await Promise.allSettled(uploadPromises);
  ... (the loop above) ...
  // 201 = todos OK, 500 = todos fallaron, 207 = resultado mixto
  const statusCode = fallidos.length === 0 ? 201 : exitosos.length === 0 ? 500 : 207;
  return res.status(statusCode).json({
    message: `${exitosos.length} de ${files.length} PDF(s) subido(s) correctamente`,
    exitosos,
    fallidos: fallidos.length > 0 ? fallidos : undefined,
    resumen: { total: files.length, exitosos: exitosos.length, fallidos: fallidos.length },
  });
  \<close>
\<close>

definition uploadBatch :: "'w uploadPdfUseCase \<Rightarrow> multer_file list \<Rightarrow> string \<Rightarrow> 'w \<Rightarrow> response \<times> 'w" where
  "uploadBatch uc files idCarpeta w =
     (case allSettled (\<lambda>file. execute uc \<lparr>pu_file = file, pu_parentFolderId = idCarpeta\<rparr>) files w of
        (resultados, w1) \<Rightarrow>
          (case clasificar files resultados of
             (exitosos, fallidos) \<Rightarrow>
               (\<lparr>res_status =
                    (if length fallidos = 0 then 201 else if length exitosos = 0 then 500 else 207),
                  res_body = BatchBody
                    \<lparr>bb_message = show_nat (length exitosos) @ '' de '' @ show_nat (length files)
                                    @ '' PDF(s) subido(s) correctamente'',
                     bb_exitosos = exitosos,
                     bb_fallidos = (if length fallidos > 0 then Some fallidos else None),
                     bb_resumen = \<lparr>rs_total = length files, rs_exitosos = length exitosos,
                                   rs_fallidos = length fallidos\<rparr>\<rparr>\<rparr>,
                w1)))"

text \<open>The PDFs that fail the check \<open>pdfMimeTypes.includes(file.mimetype)\<close>.\<close>

definition archivosInvalidos :: "string list \<Rightarrow> multer_file list \<Rightarrow> multer_file list" where
  "archivosInvalidos mimeTypes files = filter (\<lambda>file. mimetype file \<notin> set mimeTypes) files"

definition no_files_message :: string where
  "no_files_message = ''Falta archivo(s) (form-data '' @ [dq] @ ''files'' @ [dq] @ '')''"

definition not_pdf_message :: "multer_file list \<Rightarrow> string" where
  "not_pdf_message invalidos =
     ''Todos los archivos deben ser PDF. Archivos inv'' @ [CHR 0xE1] @ ''lidos: ''
       @ join '', '' (map originalname invalidos)"

record intrastat_request =
  ir_files :: "multer_file list option"
  ir_marca :: "string option"

text \<open>
  \<open>uploadIntrastatPDF(req, res, next)\<close>: \<open>req.files || []\<close>, the checks that answer
  400, the configured folder of the operation, the day folder, then the batch. Whatever
  is thrown inside the \<open>try\<close> goes through the \<open>catch\<close> block.
\<close>

definition uploadIntrastatPDF :: "(string \<rightharpoonup> string) \<Rightarrow> 'w uploadPdfUseCase \<Rightarrow> intrastat_request \<Rightarrow> 'w \<Rightarrow> response \<times> 'w" where
  "uploadIntrastatPDF driveIds uc req w =
     (let files = (case ir_files req of None \<Rightarrow> [] | Some fs \<Rightarrow> fs) in
      if length files = 0 then (bad_request no_files_message, w)
      else if or_str (ir_marca req) [] = []
      then (bad_request (''Falta el campo '' @ [dq] @ ''marca'' @ [dq] @ '' en el body''), w)
      else if or_str (ir_marca req) [] \<notin> set [''COMPRA'', ''VENTA'']
      then (bad_request (''Marca no v'' @ [CHR 0xE1] @ ''lida. Debe ser una de: ''
                           @ join '', '' [''COMPRA'', ''VENTA'']), w)
      else if length (archivosInvalidos [''application/pdf''] files) > 0
      then (bad_request (not_pdf_message (archivosInvalidos [''application/pdf''] files)), w)
      else
        (case (if or_str (ir_marca req) [] = ''COMPRA''
               then getIntrastatComprasFolderId driveIds
               else getIntrastatVentasFolderId driveIds) of
           Inl error \<Rightarrow> (catch_response error, w)
         | Inr parentFolderId \<Rightarrow>
             (case executeFolderDia uc parentFolderId w of
                (Inl error, w1) \<Rightarrow> (catch_response error, w1)
              | (Inr idCarpeta, w1) \<Rightarrow> uploadBatch uc files idCarpeta w1)))"

record inventario_request =
  vr_files :: "multer_file list option"

definition uploadInventarioPDF :: "(string \<rightharpoonup> string) \<Rightarrow> 'w uploadPdfUseCase \<Rightarrow> inventario_request \<Rightarrow> 'w \<Rightarrow> response \<times> 'w" where
  "uploadInventarioPDF driveIds uc req w =
     (let files = (case vr_files req of None \<Rightarrow> [] | Some fs \<Rightarrow> fs) in
      if length files = 0 then (bad_request no_files_message, w)
      else if length (archivosInvalidos [''application/pdf''] files) > 0
      then (bad_request (not_pdf_message (archivosInvalidos [''application/pdf''] files)), w)
      else
        (case getInventarioFolderID driveIds of
           Inl error \<Rightarrow> (catch_response error, w)
         | Inr parentFolderId \<Rightarrow>
             (case executeFolderDia uc parentFolderId w of
                (Inl error, w1) \<Rightarrow> (catch_response error, w1)
              | (Inr idCarpeta, w1) \<Rightarrow> uploadBatch uc files idCarpeta w1)))"




text \<open>The failed list of a batch response; the field is left out when there is no failure.\<close>

definition fallidos_of :: "batch_body \<Rightarrow> fallido list" where
  "fallidos_of b = (case bb_fallidos b of None \<Rightarrow> [] | Some fs \<Rightarrow> fs)"


text \<open>The values the fulfilled calls resolved to, and the files of the rejected ones with
  the reasons, both in the order of the input.\<close>

fun fulfilled :: "(js_error + 'b) list \<Rightarrow> 'b list" where
  "fulfilled [] = []"
| "fulfilled (Inr v # rs) = v # fulfilled rs"
| "fulfilled (Inl e # rs) = fulfilled rs"

fun rejected :: "'a list \<Rightarrow> (js_error + 'b) list \<Rightarrow> ('a \<times> js_error) list" where
  "rejected (x # xs) (Inl e # rs) = (x, e) # rejected xs rs"
| "rejected (x # xs) (Inr v # rs) = rejected xs rs"
| "rejected xs rs = []"

text \<open>
  What C2 asks of a batch response for the submitted files: the two lists together have
  one entry per file, and the summary counts the files and the two lists.
\<close>

definition accounts_for :: "multer_file list \<Rightarrow> batch_body \<Rightarrow> bool" where
  "accounts_for files b =
     (length (bb_exitosos b) + length (fallidos_of b) = length files
      \<and> rs_total (bb_resumen b) = length files
      \<and> rs_exitosos (bb_resumen b) = length (bb_exitosos b)
      \<and> rs_fallidos (bb_resumen b) = length (fallidos_of b))"

text \<open>The response of the shared part, written from the settled results.\<close>

definition batch_response :: "multer_file list \<Rightarrow> (js_error + pdf_result) list \<Rightarrow> response" where
  "batch_response files resultados =
     (let exitosos = map to_exitoso (fulfilled resultados);
          fallidos = map (\<lambda>(file, reason). to_fallido file reason) (rejected files resultados)
      in \<lparr>res_status = (if fallidos = [] then 201 else if exitosos = [] then 500 else 207),
          res_body = BatchBody
            \<lparr>bb_message = show_nat (length exitosos) @ '' de '' @ show_nat (length files)
                            @ '' PDF(s) subido(s) correctamente'',
             bb_exitosos = exitosos,
             bb_fallidos = (if fallidos = [] then None else Some fallidos),
             bb_resumen = \<lparr>rs_total = length files, rs_exitosos = length exitosos,
                           rs_fallidos = length fallidos\<rparr>\<rparr>\<rparr>)"

section \<open>GoogleController: uploadNominasExcels\<close>

record nominas_request =
  nq_archivoResumen :: "multer_file list option"
  nq_archivosDetalle1 :: "multer_file list option"
  nq_archivosDetalle2 :: "multer_file list option"
  nq_anio :: "string option"
  nq_mes :: "string option"

text \<open>
  \<open>String.prototype.toLowerCase\<close> on the characters a MIME type is compared by: the
  letters A-Z, and the capital letters of Latin-1 beyond them.
\<close>

definition lower_char :: "char \<Rightarrow> char" where
  "lower_char c =
     (let n = (of_char c :: nat)
      in if (65 \<le> n \<and> n \<le> 90) \<or> (192 \<le> n \<and> n \<le> 222 \<and> n \<noteq> 215) then char_of (n + 32) else c)"

definition toLowerCase :: "string \<Rightarrow> string" where
  "toLowerCase s = map lower_char s"

definition excelMimeTypes :: "string list" where
  "excelMimeTypes =
     [''application/vnd.ms-excel'',
      ''application/vnd.openxmlformats-officedocument.spreadsheetml.sheet'',
      ''application/vnd.ms-excel.sheet.macroenabled.12'']"

text \<open>
  \<^verbatim>\<open>
  const retencionesPromises = archivosDetalle2.map(async (archivo) => {
    try {
      const result = await this.uploadExcelUseCase.uploadFileToFolder({
        originalname: archivo.originalname, mimetype: archivo.mimetype,
        buffer: archivo.buffer, folderId: folderRetenciones });
      return result.id;
    } catch (error) {
      console.error(`Error retencion ${archivo.originalname}:`, error);
      return null;
    }
  });
  \<close>
  One such task: it never rejects; a failed upload resolves to \<open>null\<close>.
\<close>

definition subir_detalle :: "'w uploadExcelUseCase \<Rightarrow> string \<Rightarrow> multer_file \<Rightarrow> 'w \<Rightarrow> (js_error + string option) \<times> 'w" where
  "subir_detalle uc folderId archivo w =
     (case uploadFileToFolder uc (archivo, folderId) w of
        (Inr result, w1) \<Rightarrow> (Inr (Some (fm_id result)), w1)
      | (Inl error, w1) \<Rightarrow> (Inr None, w1))"

text \<open>\<open>ids.filter((id) => id !== null)\<close> on the settled tasks.\<close>

definition not_null :: "(js_error + string option) list \<Rightarrow> string list" where
  "not_null ids = concat (map (\<lambda>r. case r of Inr (Some i) \<Rightarrow> [i] | _ \<Rightarrow> []) ids)"

text \<open>
  "Paso 3" and the response:
  \<^verbatim>\<open>
  const [retencionesIds, resumenesIds, excelResumen] = await Promise.all([
    Promise.all(retencionesPromises),
    Promise.all(resumenesPromises),
    this.uploadExcelUseCase.uploadFileToFolder({ ...archivoResumen, folderId: folderNominas }),
  ]);
  const retencionesData = retencionesIds.filter((id) => id !== null);
  const nominasData = resumenesIds.filter((id) => id !== null);
  return res.status(200).json({
    id_excel_resumen: excelResumen.id,
    ids_retenciones: retencionesData,
    ids_nominas: nominasData,
  });
  \<close>
  The tasks of \<open>archivosDetalle2\<close> are started first, then those of
  \<open>archivosDetalle1\<close>, then the upload of the summary file; only the last can reject.
\<close>

definition subir_nominas :: "'w uploadExcelUseCase \<Rightarrow> multer_file \<Rightarrow> multer_file list \<Rightarrow> multer_file list \<Rightarrow> string \<Rightarrow> string \<Rightarrow> string \<Rightarrow> 'w \<Rightarrow> response \<times> 'w" where
  "subir_nominas uc archivoResumen archivosDetalle1 archivosDetalle2
       folderRetenciones folderResumenes folderNominas w =
     (case allSettled (subir_detalle uc folderRetenciones) archivosDetalle2 w of
        (retencionesIds, w1) \<Rightarrow>
          (case allSettled (subir_detalle uc folderResumenes) archivosDetalle1 w1 of
             (resumenesIds, w2) \<Rightarrow>
               (case uploadFileToFolder uc (archivoResumen, folderNominas) w2 of
                  (Inl error, w3) \<Rightarrow> (catch_response error, w3)
                | (Inr excelResumen, w3) \<Rightarrow>
                    (\<lparr>res_status = 200,
                      res_body = NominasBody
                        \<lparr>nb_id_excel_resumen = fm_id excelResumen,
                         nb_ids_retenciones = not_null retencionesIds,
                         nb_ids_nominas = not_null resumenesIds\<rparr>\<rparr>, w3))))"

text \<open>
  \<open>Promise.all\<close> rejects with the reason of the call that rejects first in time.
  Time is not part of the model, so which of the rejected calls that is comes as a
  number \<open>primero\<close>: any of them can be the first.
\<close>

fun rejections :: "(js_error + 'b) list \<Rightarrow> js_error list" where
  "rejections [] = []"
| "rejections (Inl e # rs) = e # rejections rs"
| "rejections (Inr v # rs) = rejections rs"

definition first_rejection :: "nat \<Rightarrow> (js_error + 'b) list \<Rightarrow> js_error option" where
  "first_rejection primero rs =
     (case rejections rs of
        [] \<Rightarrow> None
      | e # es \<Rightarrow> Some ((e # es) ! (primero mod Suc (length es))))"

text \<open>
  "Paso 2": \<open>Promise.all\<close> of three \<open>createFolderIfNotExists\<close> calls. All three are
  issued; the \<open>await\<close> throws if one of them rejects, and gives the three ids
  otherwise.
\<close>

definition crear_subcarpetas :: "'w uploadExcelUseCase \<Rightarrow> nat \<Rightarrow> string \<Rightarrow> string \<Rightarrow> 'w \<Rightarrow> (js_error + string \<times> string \<times> string) \<times> 'w" where
  "crear_subcarpetas uc primero folderAnoMes folderAnoMesNomina w =
     (case createFolderIfNotExists uc (''RETENCIONES'', folderAnoMes) w of
        (r1, w1) \<Rightarrow>
          (case createFolderIfNotExists uc (''RESUMEN'', folderAnoMes) w1 of
             (r2, w2) \<Rightarrow>
               (case createFolderIfNotExists uc (''NOMINAS'', folderAnoMesNomina) w2 of
                  (r3, w3) \<Rightarrow>
                    (case first_rejection primero [r1, r2, r3] of
                       Some error \<Rightarrow> (Inl error, w3)
                     | None \<Rightarrow>
                         (case r1 of
                            Inl error \<Rightarrow> (Inl error, w3)
                          | Inr folderRetenciones \<Rightarrow>
                              (case r2 of
                                 Inl error \<Rightarrow> (Inl error, w3)
                               | Inr folderResumenes \<Rightarrow>
                                   (case r3 of
                                      Inl error \<Rightarrow> (Inl error, w3)
                                    | Inr folderNominas \<Rightarrow>
                                        (Inr (folderRetenciones, folderResumenes, folderNominas),
                                         w3))))))))"

text \<open>
  \<open>uploadNominasExcels(req, res, next)\<close>: the checks that answer 400 (the summary file
  \<open>req.files?.archivoResumen?.[0]\<close>, the two lists of detail files, \<open>anio\<close> and
  \<open>mes\<close>, the MIME types), the two configured folders, "Paso 1" (the year/month folders,
  one after the other), "Paso 2" and "Paso 3". The \<open>console.log\<close> calls are left out;
  \<open>primero\<close> is the number "Paso 2" takes.
\<close>

definition uploadNominasExcels :: "(string \<rightharpoonup> string) \<Rightarrow> 'w uploadExcelUseCase \<Rightarrow> nat \<Rightarrow> nominas_request \<Rightarrow> 'w \<Rightarrow> response \<times> 'w" where
  "uploadNominasExcels driveIds uc primero req w =
     (let archivosDetalle1 = (case nq_archivosDetalle1 req of None \<Rightarrow> [] | Some fs \<Rightarrow> fs);
          archivosDetalle2 = (case nq_archivosDetalle2 req of None \<Rightarrow> [] | Some fs \<Rightarrow> fs);
          anio = or_str (nq_anio req) [];
          mes = or_str (nq_mes req) []
      in case (case nq_archivoResumen req of None \<Rightarrow> None | Some [] \<Rightarrow> None | Some (f # _) \<Rightarrow> Some f) of
           None \<Rightarrow>
             (bad_request (''Falta el archivo de n'' @ [CHR 0xF3] @ ''minas (archivoResumen)''), w)
         | Some archivoResumen \<Rightarrow>
             if length archivosDetalle1 = 0
             then (bad_request (''Faltan archivos de res'' @ [CHR 0xFA] @ ''menes (archivosDetalle1)''), w)
             else if length archivosDetalle2 = 0
             then (bad_request ''Faltan archivos de retenciones (archivosDetalle2)'', w)
             else if anio = [] \<or> mes = []
             then (bad_request (''Faltan los campos '' @ [dq] @ ''anio'' @ [dq] @ '' y/o '' @ [dq]
                                  @ ''mes'' @ [dq] @ '' en el body''), w)
             else if length (filter (\<lambda>file. toLowerCase (mimetype file) \<notin> set excelMimeTypes)
                               (archivoResumen # archivosDetalle1 @ archivosDetalle2)) > 0
             then (bad_request
                     (''Todos los archivos deben ser Excel. Archivos inv'' @ [CHR 0xE1] @ ''lidos: ''
                        @ join '', ''
                            (map originalname
                               (filter (\<lambda>file. toLowerCase (mimetype file) \<notin> set excelMimeTypes)
                                  (archivoResumen # archivosDetalle1 @ archivosDetalle2)))), w)
             else
               (case getNominasAsesoriasFolderID driveIds of
                  Inl error \<Rightarrow> (catch_response error, w)
                | Inr parentFolderIdAsesorias \<Rightarrow>
                    (case getNominasNominasFolderID driveIds of
                       Inl error \<Rightarrow> (catch_response error, w)
                     | Inr parentFolderIdNominas \<Rightarrow>
                         (case getOrCreateMesAnio uc (parentFolderIdAsesorias, mes, anio) w of
                            (Inl error, w1) \<Rightarrow> (catch_response error, w1)
                          | (Inr folderAnoMes, w1) \<Rightarrow>
                              (case getOrCreateMesAnio uc (parentFolderIdNominas, mes, anio) w1 of
                                 (Inl error, w2) \<Rightarrow> (catch_response error, w2)
                               | (Inr folderAnoMesNomina, w2) \<Rightarrow>
                                   (case crear_subcarpetas uc primero folderAnoMes folderAnoMesNomina
                                           w2 of
                                      (Inl error, w3) \<Rightarrow> (catch_response error, w3)
                                    | (Inr (folderRetenciones, folderResumenes, folderNominas), w3) \<Rightarrow>
                                        subir_nominas uc archivoResumen archivosDetalle1
                                          archivosDetalle2 folderRetenciones folderResumenes
                                          folderNominas w3))))))"

text \<open>What a detail task resolves to, from what its upload settled as.\<close>

definition caught :: "js_error + file_metadata \<Rightarrow> js_error + string option" where
  "caught r = Inr (case r of Inr result \<Rightarrow> Some (fm_id result) | Inl error \<Rightarrow> None)"

section \<open>Test doubles\<close>

text \<open>
  Use cases, a configuration and files on which the statements below are evaluated. The
  world of the doubles is the list of the calls made so far; an upload of a file named
  roto.* fails.
\<close>

definition pdf :: "string \<Rightarrow> multer_file" where
  "pdf name = \<lparr>originalname = name, mimetype = ''application/pdf'', buffer = ''%PDF-1.7''\<rparr>"

definition xls :: "string \<Rightarrow> multer_file" where
  "xls name = \<lparr>originalname = name, mimetype = ''application/vnd.ms-excel'', buffer = ''xls''\<rparr>"

definition stub_result :: "string \<Rightarrow> string \<Rightarrow> pdf_result" where
  "stub_result name folderId =
     \<lparr>pr_id = ''id:'' @ name, pr_name = name, pr_webViewLink = ''view:'' @ name,
      pr_webContentLink = ''content:'' @ name, pr_targetFolderId = Some folderId,
      pr_folderName = None\<rparr>"

definition stub_pdf_usecase :: "string list uploadPdfUseCase" where
  "stub_pdf_usecase =
     \<lparr>execute = (\<lambda>u w.
        (if originalname (pu_file u) = ''roto.pdf'' then Inl (js_Error ''Drive no responde'')
         else Inr (stub_result (originalname (pu_file u)) (pu_parentFolderId u)),
         w @ [originalname (pu_file u)])),
      executeFolderDia = (\<lambda>parentFolderId w. (Inr (parentFolderId @ ''/hoy''), w @ [''carpeta del dia'']))\<rparr>"

definition stub_excel_usecase :: "string list uploadExcelUseCase" where
  "stub_excel_usecase =
     \<lparr>getOrCreateMesAnio = (\<lambda>(parentFolderId, mes, anio) w.
        (Inr (parentFolderId @ ''/'' @ anio @ ''/'' @ mes), w @ [''mes''])),
      createFolderIfNotExists = (\<lambda>(folderName, parentFolderId) w.
        (Inr (parentFolderId @ ''/'' @ folderName), w @ [folderName])),
      uploadFileToFolder = (\<lambda>(archivo, folderId) w.
        (if originalname archivo = ''roto.xls'' then Inl (js_Error ''Drive no responde'')
         else Inr \<lparr>fm_id = ''id:'' @ originalname archivo, fm_name = originalname archivo,
                   fm_mimeType = mimetype archivo, fm_webContentLink = [], fm_webViewLink = []\<rparr>,
         w @ [originalname archivo]))\<rparr>"

definition stub_driveIds :: "string \<rightharpoonup> string" where
  "stub_driveIds =
     map_of [(''intrastat_compras'', ''compras''), (''intrastat_ventas'', ''ventas''),
             (''inventario'', ''inventario''), (''nominas_asesorias'', ''asesorias''),
             (''nominas_nominas'', ''nominas'')]"

definition mixed_body :: "string \<Rightarrow> batch_body" where
  "mixed_body folderId =
     \<lparr>bb_message = ''2 de 3 PDF(s) subido(s) correctamente'',
      bb_exitosos = [to_exitoso (stub_result ''a.pdf'' folderId),
                     to_exitoso (stub_result ''c.pdf'' folderId)],
      bb_fallidos = Some [\<lparr>fa_archivo = ''roto.pdf'', fa_error = ''Drive no responde''\<rparr>],
      bb_resumen = \<lparr>rs_total = 3, rs_exitosos = 2, rs_fallidos = 1\<rparr>\<rparr>"

definition nominas_request_of :: "multer_file list \<Rightarrow> nominas_request" where
  "nominas_request_of retenciones =
     \<lparr>nq_archivoResumen = Some [xls ''nominas.xls''], nq_archivosDetalle1 = Some [xls ''resumen.xls''],
      nq_archivosDetalle2 = Some retenciones, nq_anio = Some ''2026'', nq_mes = Some ''02''\<rparr>"

section \<open>Verification: NamingPolicy\<close>

lemmas char_classes = is_lower_def is_upper_def is_digit_def is_space_def keeps_def
  ch_dot_def ch_slash_def ch_hyphen_def ch_underscore_def

lemma name_char_not_space: "name_char c \<Longrightarrow> \<not> is_space c"
  unfolding name_char_def char_classes by (auto simp: word_le_nat_alt word_less_nat_alt)

lemma name_char_not_dot: "name_char c \<Longrightarrow> c \<noteq> ch_dot"
  unfolding name_char_def char_classes by auto

lemma name_char_keeps: "name_char c \<Longrightarrow> keeps c"
  by (auto simp: name_char_def keeps_def)

lemma keeps_cases: "keeps c \<Longrightarrow> \<not> is_space c \<Longrightarrow> name_char c"
  by (auto simp: name_char_def keeps_def)

lemma underscore_name_char: "name_char ch_underscore"
  by (simp add: name_char_def)

lemma set_replaceSpaces: "set (replaceSpaces s) \<subseteq> {c \<in> set s. \<not> is_space c} \<union> {ch_underscore}"
proof (induction s rule: replaceSpaces.induct)
  case 1
  then show ?case by simp
next
  case (2 c r)
  show ?case
  proof (cases "is_space c")
    case True
    have "set (dropWhile is_space r) \<subseteq> set r" by (rule set_dropWhileD [THEN subsetI])
    with 2(1) [OF True] True show ?thesis by auto
  next
    case False
    with 2(2) [OF False] show ?thesis by auto
  qed
qed

lemma dropWhile_none: "\<forall>c\<in>set s. \<not> P c \<Longrightarrow> dropWhile P s = s"
  by (cases s) auto

lemma trim_no_space: "\<forall>c\<in>set s. \<not> is_space c \<Longrightarrow> trim s = s"
  by (simp add: trim_def dropWhile_none)

lemma replaceSpaces_no_space: "\<forall>c\<in>set s. \<not> is_space c \<Longrightarrow> replaceSpaces s = s"
  by (induction s) auto

lemma stripExtension_no_dot: "ch_dot \<notin> set s \<Longrightarrow> stripExtension s = s"
  by (induction s) auto

lemma stripExtension_suffix:
  "e \<noteq> [] \<Longrightarrow> \<forall>c\<in>set e. c \<noteq> ch_slash \<and> c \<noteq> ch_dot \<Longrightarrow> stripExtension (b @ ch_dot # e) = b"
  by (induction b) (auto simp: list_all_iff)

text \<open>A run of white space between two stretches of other text becomes one underscore.\<close>

lemma replaceSpaces_run:
  assumes a: "\<forall>c\<in>set a. \<not> is_space c"
    and w: "w \<noteq> []" "\<forall>c\<in>set w. is_space c"
    and b: "b = [] \<or> \<not> is_space (hd b)"
  shows "replaceSpaces (a @ w @ b) = a @ ch_underscore # replaceSpaces b"
using a proof (induction a)
  case Nil
  from w obtain c w' where cw: "w = c # w'" by (cases w) auto
  from b have "dropWhile is_space b = b" by (cases b) auto
  with w cw have "dropWhile is_space (w' @ b) = b" by (simp add: dropWhile_append)
  with w cw show ?case by simp
next
  case (Cons x a)
  then show ?case by simp
qed

lemma replaceSpaces_name_chars:
  assumes a: "\<forall>c\<in>set s. keeps c"
  shows "\<forall>c\<in>set (replaceSpaces s). name_char c"
proof
  fix c assume c: "c \<in> set (replaceSpaces s)"
  from c set_replaceSpaces [of s] have "c = ch_underscore \<or> (c \<in> set s \<and> \<not> is_space c)"
    by auto
  with a show "name_char c"
    by (auto simp: underscore_name_char intro: keeps_cases)
qed

lemma pipeline_name_chars: "\<forall>c\<in>set (replaceSpaces (removeSpecial s)). name_char c"
  by (rule replaceSpaces_name_chars) (simp add: removeSpecial_def)

text \<open>
  After the white space has been replaced nothing is left for \<open>trim\<close> to strip: the
  last step of the chain never changes its argument.
\<close>

lemma generateFolderName_pipeline:
  "generateFolderName x = replaceSpaces (removeSpecial (stripExtension x))"
  unfolding generateFolderName_def
  by (rule trim_no_space) (use pipeline_name_chars in \<open>auto dest: name_char_not_space\<close>)

lemma generateFolderName_name_chars: "\<forall>c\<in>set (generateFolderName x). name_char c"
  by (simp add: generateFolderName_pipeline pipeline_name_chars)

lemma generateFolderName_fixed:
  assumes "\<forall>c\<in>set y. name_char c"
  shows "generateFolderName y = y"
proof -
  have "stripExtension y = y"
    using assms by (intro stripExtension_no_dot) (auto dest: name_char_not_dot)
  moreover have "removeSpecial y = y"
    using assms by (auto simp: removeSpecial_def name_char_keeps)
  moreover have "replaceSpaces y = y"
    using assms by (intro replaceSpaces_no_space) (auto dest: name_char_not_space)
  ultimately show ?thesis by (simp add: generateFolderName_pipeline)
qed

lemma generateFolderName_informe:
  "generateFolderName (js ''Informe Q1 (2025).xlsx'') = js ''Informe_Q1_2025''"
  by (simp add: generateFolderName_def js_def trim_def removeSpecial_def char_classes)

lemma generateFolderName_abc: "generateFolderName (js ''a/b:c'') = js ''abc''"
  by (simp add: generateFolderName_def js_def trim_def removeSpecial_def char_classes)

text \<open>
  C5, as the claim states it, fails on its second example: the slash and the colon are
  deleted, not turned into underscores, and the white space at both ends has already
  become an underscore when \<open>trim\<close> runs.
\<close>

theorem C5_sanitize_example_counterexample:
  "generateFolderName (js ''  a/b:c  '') = js ''_abc_''
   \<and> generateFolderName (js ''  a/b:c  '') \<noteq> js ''a_b_c''"
  by (simp add: generateFolderName_def js_def trim_def removeSpecial_def char_classes)

text \<open>
  C5 (amended): generateFolderName strips a trailing file extension (a last dot followed
  by one or more characters other than dot and slash), deletes every character outside
  letters, digits, white space, hyphen and underscore, and replaces each run of white
  space by one underscore, so that only letters, digits, hyphens and underscores are
  left; \<open>"Informe Q1 (2025).xlsx"\<close> becomes \<open>"Informe_Q1_2025"\<close> and \<open>"a/b:c"\<close>
  becomes \<open>"abc"\<close>.
\<close>

theorem C5_generateFolderName_behaviour:
  "generateFolderName x = replaceSpaces (removeSpecial (stripExtension x))
   \<and> (e \<noteq> [] \<and> (\<forall>c\<in>set e. c \<noteq> ch_slash \<and> c \<noteq> ch_dot) \<longrightarrow> stripExtension (b @ ch_dot # e) = b)
   \<and> (ch_dot \<notin> set x \<longrightarrow> stripExtension x = x)
   \<and> removeSpecial x = filter (\<lambda>c. name_char c \<or> is_space c) x
   \<and> ((\<forall>c\<in>set a. \<not> is_space c) \<and> w \<noteq> [] \<and> (\<forall>c\<in>set w. is_space c) \<and> (r = [] \<or> \<not> is_space (hd r))
        \<longrightarrow> replaceSpaces (a @ w @ r) = a @ ch_underscore # replaceSpaces r)
   \<and> (\<forall>c\<in>set (generateFolderName x). name_char c)
   \<and> generateFolderName (js ''Informe Q1 (2025).xlsx'') = js ''Informe_Q1_2025''
   \<and> generateFolderName (js ''a/b:c'') = js ''abc''"
proof -
  have "removeSpecial x = filter (\<lambda>c. name_char c \<or> is_space c) x"
    unfolding removeSpecial_def by (rule filter_cong) (auto simp: name_char_def keeps_def)
  then show ?thesis
    using generateFolderName_pipeline [of x] stripExtension_suffix [of e b]
      stripExtension_no_dot [of x] replaceSpaces_run [of a w r]
      generateFolderName_name_chars [of x] generateFolderName_informe generateFolderName_abc
    by blast
qed

theorem C5_generateFolderName_behaviour_witness:
  "generateFolderName (js ''a b.txt'') = replaceSpaces (removeSpecial (stripExtension (js ''a b.txt'')))
   \<and> stripExtension (js ''a b'' @ ch_dot # js ''txt'') = js ''a b''
   \<and> replaceSpaces (js ''a'' @ js '' '' @ js ''b'') = js ''a'' @ ch_underscore # replaceSpaces (js ''b'')
   \<and> list_all name_char (generateFolderName (js ''a b.txt''))"
  using C5_generateFolderName_behaviour
    [of "js ''a b.txt''" "js ''txt''" "js ''a b''" "js ''a''" "js '' ''" "js ''b''"]
  by (simp add: js_def char_classes list_all_iff)

text \<open>
  C6: generateFolderName is total (a composition of total list functions, each defined
  by terminating recursion) and idempotent.
\<close>

theorem C6_generateFolderName_idempotent:
  "generateFolderName (generateFolderName x) = generateFolderName x"
  by (rule generateFolderName_fixed) (rule generateFolderName_name_chars)

section \<open>Verification: the day folder\<close>

lemma decimal_digits: "\<forall>x\<in>set (decimal n). x < 10"
proof (induction n rule: decimal.induct)
  case (1 n)
  show ?case
  proof (cases "n < 10")
    case True
    then show ?thesis by (simp add: decimal.simps [of n])
  next
    case False
    with 1 show ?thesis by (simp add: decimal.simps [of n])
  qed
qed

lemma digit_not_slash: "n < 10 \<Longrightarrow> digit n \<noteq> ch_slash"
proof
  assume n: "n < 10" and e: "digit n = ch_slash"
  have "unat (0x30 + of_nat n :: 16 word) = 48 + n"
    using n by (simp add: unat_word_ariths unat_of_nat)
  moreover from e have "unat (0x30 + of_nat n :: 16 word) = unat (0x2F :: 16 word)"
    by (simp only: digit_def ch_slash_def)
  ultimately show False by simp
qed

lemma replaceSlashes_digits: "\<forall>c\<in>set s. c \<noteq> ch_slash \<Longrightarrow> replaceSlashes s = s"
  by (simp add: replaceSlashes_def map_idI)

lemma replaceSlashes_append: "replaceSlashes (a @ b) = replaceSlashes a @ replaceSlashes b"
  by (simp add: replaceSlashes_def)

lemma replaceSlashes_two_digit: "replaceSlashes (two_digit n) = two_digit n"
  by (rule replaceSlashes_digits) (simp add: two_digit_def digit_not_slash)

lemma replaceSlashes_numeric: "replaceSlashes (numeric n) = numeric n"
  by (rule replaceSlashes_digits) (use decimal_digits [of n] in \<open>auto simp: numeric_def digit_not_slash\<close>)

lemma replaceSlashes_slash: "replaceSlashes (ch_slash # s) = ch_hyphen # replaceSlashes s"
  by (simp add: replaceSlashes_def)

lemma generateDayFolderName_format:
  "generateDayFolderName tz h = dd_mm_yyyy (tz ''Europe/Madrid'' (host_now h))"
  by (simp add: generateDayFolderName_def intl_format_es_def dd_mm_yyyy_def Let_def
      replaceSlashes_append replaceSlashes_two_digit replaceSlashes_numeric replaceSlashes_slash)

lemma decimal_small: "n < 10 \<Longrightarrow> decimal n = [n]"
  by (simp add: decimal.simps)

lemma decimal_2026: "decimal 2026 = [2, 0, 2, 6]"
  by (simp add: decimal.simps)

text \<open>
  C8: generateDayFolderName formats the current date as DD-MM-YYYY in the fixed zone
  Europe/Madrid: the name is that of the civil date the time zone database gives for the
  instant in Europe/Madrid; two calls at instants of the same civil day there return the
  same string, whatever the hosts' own time zones; and changing the host's time zone
  changes nothing.
\<close>

theorem C8_generateDayFolderName_madrid:
  "generateDayFolderName tz h = dd_mm_yyyy (tz ''Europe/Madrid'' (host_now h))
   \<and> (tz ''Europe/Madrid'' (host_now h1) = tz ''Europe/Madrid'' (host_now h2)
        \<longrightarrow> generateDayFolderName tz h1 = generateDayFolderName tz h2)
   \<and> generateDayFolderName tz (h\<lparr>host_timezone := z\<rparr>) = generateDayFolderName tz h"
  by (simp add: generateDayFolderName_format)

theorem C8_generateDayFolderName_madrid_witness:
  "generateDayFolderName madrid_feb3
      \<lparr>host_now = 1770073200000, host_timezone = ''America/Los_Angeles''\<rparr>
     = js ''03-02-2026''
   \<and> generateDayFolderName madrid_feb3
        \<lparr>host_now = 1770073200000, host_timezone = ''America/Los_Angeles''\<rparr>
     = generateDayFolderName madrid_feb3
        \<lparr>host_now = 1770159599000, host_timezone = ''Asia/Tokyo''\<rparr>"
  using C8_generateDayFolderName_madrid
    [of madrid_feb3 "\<lparr>host_now = 1770073200000, host_timezone = ''America/Los_Angeles''\<rparr>"
       "\<lparr>host_now = 1770073200000, host_timezone = ''America/Los_Angeles''\<rparr>"
       "\<lparr>host_now = 1770159599000, host_timezone = ''Asia/Tokyo''\<rparr>"]
  by (simp add: generateDayFolderName_format madrid_feb3_def dd_mm_yyyy_def two_digit_def
      numeric_def digit_def decimal_2026 js_def ch_hyphen_def)

section \<open>Verification: the store and the folder resolver\<close>

lemma request_ok: "0 < dr_budget d \<Longrightarrow> request c d = Some (answered c d)"
  by (simp add: request_def)

lemma answered_fields:
  "dr_files (answered c d) = dr_files d"
  "dr_issued (answered c d) = dr_issued d"
  "dr_budget (answered c d) = dr_budget d - 1"
  "dr_log (answered c d) = dr_log d @ [c]"
  by (simp_all add: answered_def)

lemma created_fields:
  "dr_files (created fs d) = dr_files d @ fs"
  "dr_issued (created fs d) = dr_issued d + length fs"
  "dr_budget (created fs d) = dr_budget d - length fs"
  "dr_log (created fs d) = dr_log d @ map (\<lambda>f. FilesCreate (df_name f) (df_parents f)) fs"
  by (simp_all add: created_def)

lemma createFolder_ok:
  "0 < dr_budget d \<Longrightarrow>
   createFolder name p d = (Inr (fresh_id (dr_issued d)), created [new_folder (dr_issued d) name p] d)"
  by (simp add: createFolder_def files_create_def request_def created_def new_folder_def Let_def answered_def)













lemmas drive_defs = files_list_def files_create_def permissions_create_def files_get_def
  request_def answered_def created_def empty_drive_def new_folder_def fresh_id_def
  decimal_small char_digit_def folder_mime_def Let_def





section \<open>Verification: the folder tree\<close>

lemma created_Nil: "created [] d = d"
  by (simp add: created_def)

lemma created_append: "created (a @ b) d = created b (created a d)"
  by (simp add: created_def)

lemma createFolder_exhausted:
  "dr_budget d = 0 \<Longrightarrow> createFolder name p d = (Inl quota_error, d)"
  by (simp add: createFolder_def files_create_def request_def)

lemma length_preorder:
  "length (preorder spec p k) = nodes spec"
  "length (preorder_list cs p k) = nodes_list cs"
  by (induction spec p k and cs p k rule: preorder_preorder_list.induct) (auto split: option.splits)

lemma createRecursiveFolders_created:
  "nodes spec \<le> dr_budget d \<Longrightarrow>
     createRecursiveFolders spec p d
       = (Inr (fresh_id (dr_issued d)), created (preorder spec p (dr_issued d)) d)"
  "nodes_list cs \<le> dr_budget d \<Longrightarrow>
     createChildren cs p d = (Inr (), created (preorder_list cs p (dr_issued d)) d)"
proof (induction spec p d and cs p d rule: createRecursiveFolders_createChildren.induct)
  case (1 name children parentId d)
  let ?k = "dr_issued d"
  let ?d1 = "created [new_folder ?k name parentId] d"
  from "1.prems" have b: "0 < dr_budget d" by simp
  note cf = createFolder_ok [OF b, of name parentId]
  show ?case
  proof (cases children)
    case None
    with cf show ?thesis by simp
  next
    case (Some cs)
    show ?thesis
    proof (cases "cs = []")
      case True
      with cf Some show ?thesis by simp
    next
      case False
      from "1.prems" Some have "nodes_list cs \<le> dr_budget ?d1"
        by (simp add: created_fields)
      with "1.IH" [OF cf [symmetric] refl Some] False
      have "createChildren cs (fresh_id ?k) ?d1
              = (Inr (), created (preorder_list cs (fresh_id ?k) (dr_issued ?d1)) ?d1)"
        by simp
      with cf Some False show ?thesis
        by (simp add: created_fields created_append [symmetric])
    qed
  qed
next
  case (2 parentId d)
  then show ?case by (simp add: created_Nil)
next
  case (3 child rest parentId d)
  let ?d1 = "created (preorder child parentId (dr_issued d)) d"
  from "3.prems" have c: "nodes child \<le> dr_budget d" by simp
  note h = "3.IH"(1) [OF c]
  from "3.prems" have "nodes_list rest \<le> dr_budget ?d1"
    by (simp add: created_fields length_preorder)
  with "3.IH"(2) [OF h [symmetric] refl] 
  have "createChildren rest parentId ?d1
          = (Inr (), created (preorder_list rest parentId (dr_issued ?d1)) ?d1)"
    by simp
  with h show ?case
    by (simp add: created_fields length_preorder created_append [symmetric])
qed

lemma preorder_head: "df_id (hd (preorder spec parentId k)) = fresh_id k"
  by (cases spec) (simp add: new_folder_def)

text \<open>
  C7: createRecursiveFolders creates the node's own folder first, by a plain creation
  request (the store sees \<open>files.create\<close> requests only, no query), then the children
  in their order, each under the id just issued for its parent: the store gains exactly
  the folders of the tree in depth-first pre-order, one per node, and the id returned is
  that of the top node. For A with the children B and C, C with the child D, four
  folders are created, B and C under A's id and D under C's id.
\<close>

theorem C7_createRecursiveFolders_preorder:
  "(nodes spec \<le> dr_budget d \<longrightarrow>
      createRecursiveFolders spec parentId d
        = (Inr (fresh_id (dr_issued d)), created (preorder spec parentId (dr_issued d)) d))
   \<and> length (preorder spec parentId k) = nodes spec
   \<and> df_id (hd (preorder spec parentId k)) = fresh_id k
   \<and> preorder tree_abcd parentId k
       = [new_folder k ''A'' parentId, new_folder (k + 1) ''B'' (fresh_id k),
          new_folder (k + 2) ''C'' (fresh_id k), new_folder (k + 3) ''D'' (fresh_id (k + 2))]"
  by (simp add: createRecursiveFolders_created length_preorder preorder_head tree_abcd_def
      eval_nat_numeral)

theorem C7_createRecursiveFolders_preorder_witness:
  "createRecursiveFolders tree_abcd ''root'' (empty_drive 4)
     = (Inr ''id-0'',
        \<lparr>dr_files =
           [new_folder 0 ''A'' ''root'', new_folder 1 ''B'' ''id-0'',
            new_folder 2 ''C'' ''id-0'', new_folder 3 ''D'' ''id-2''],
         dr_issued = 4, dr_budget = 0,
         dr_log = [FilesCreate ''A'' [''root''], FilesCreate ''B'' [''id-0''],
                   FilesCreate ''C'' [''id-0''], FilesCreate ''D'' [''id-2'']]\<rparr>)"
  using C7_createRecursiveFolders_preorder [of tree_abcd "empty_drive 4" "''root''" 0]
  by (simp add: tree_abcd_def empty_drive_def created_def new_folder_def fresh_id_def decimal_small
      char_digit_def)

section \<open>Verification: public read permission\<close>

lemma df_id_grant: "df_id (grant i p f) = df_id f"
  by (simp add: grant_def)

lemma granted_public:
  "i \<in> set (map df_id fs) \<Longrightarrow>
   list_ex (\<lambda>f. df_id f = i \<and> p \<in> set (df_permissions f)) (map (grant i p) fs)"
  by (induction fs) (auto simp: grant_def)

lemma granted_found:
  "i \<in> set (map df_id fs) \<Longrightarrow> find (\<lambda>f. df_id f = i) (map (grant i p) fs) \<noteq> None"
  by (induction fs) (auto simp: df_id_grant)

lemma uploadFile_public:
  assumes b: "3 \<le> dr_budget d"
  shows "\<exists>m d'. uploadFile p d = (Inr m, d')
           \<and> fm_id m = fresh_id (dr_issued d)
           \<and> last (dr_files d')
               = \<lparr>df_id = fresh_id (dr_issued d), df_name = up_name p, df_mimeType = up_mimeType p,
                  df_parents = [up_parentId p], df_trashed = False, df_body = Some (up_buffer p),
                  df_permissions = [(''reader'', ''anyone'')]\<rparr>
           \<and> public_read d' (fresh_id (dr_issued d))"
proof -
  let ?id = "fresh_id (dr_issued d)"
  let ?f = "\<lparr>df_id = ?id, df_name = up_name p, df_mimeType = up_mimeType p,
             df_parents = [up_parentId p], df_trashed = False, df_body = Some (up_buffer p),
             df_permissions = []\<rparr>"
  let ?d1 = "(answered (FilesCreate (up_name p) [up_parentId p]) d)
               \<lparr>dr_files := dr_files d @ [?f], dr_issued := Suc (dr_issued d)\<rparr>"
  let ?d2 = "(answered (PermissionsCreate ?id) ?d1)
               \<lparr>dr_files := map (grant ?id (''reader'', ''anyone'')) (dr_files d @ [?f])\<rparr>"
  let ?d3 = "answered (FilesGet ?id) ?d2"
  from b have c: "files_create (up_name p) (up_mimeType p) [up_parentId p] (Some (up_buffer p)) d
                    = (Inr ?f, ?d1)"
    by (simp add: files_create_def request_ok Let_def answered_fields)
  from b have g: "permissions_create ?id ''reader'' ''anyone'' ?d1 = (Inr (), ?d2)"
    by (simp add: permissions_create_def request_ok answered_fields)
  have fs: "dr_files ?d3 = map (grant ?id (''reader'', ''anyone'')) (dr_files d @ [?f])"
    by (simp add: answered_fields)
  have "find (\<lambda>f. df_id f = ?id) (dr_files ?d3) \<noteq> None"
    unfolding fs by (rule granted_found) simp
  then obtain u where u: "find (\<lambda>f. df_id f = ?id) (dr_files ?d3) = Some u" by auto
  then have uid: "df_id u = ?id" by (auto simp: find_Some_iff)
  from b u have ge: "files_get ?id ?d2 = (Inr u, ?d3)"
    by (simp add: files_get_def request_ok answered_fields)
  from c g ge have "uploadFile p d = (Inr (metadata u), ?d3)"
    by (simp add: uploadFile_def)
  moreover have "fm_id (metadata u) = ?id" using uid by (simp add: metadata_def)
  moreover have "last (dr_files ?d3) = ?f\<lparr>df_permissions := [(''reader'', ''anyone'')]\<rparr>"
    by (simp add: answered_fields grant_def)
  moreover have "public_read ?d3 ?id"
    unfolding public_read_def fs by (rule granted_public) simp
  ultimately show ?thesis by simp
qed

lemma setPublicReadPermissions_public:
  assumes "0 < dr_budget d" "fileId \<in> set (map df_id (dr_files d))"
  shows "\<exists>d'. setPublicReadPermissions fileId d = (Inr (), d') \<and> public_read d' fileId"
proof -
  let ?d' = "(answered (PermissionsCreate fileId) d)
               \<lparr>dr_files := map (grant fileId (''reader'', ''anyone'')) (dr_files d)\<rparr>"
  from assms have "setPublicReadPermissions fileId d = (Inr (), ?d')"
    by (simp add: setPublicReadPermissions_def permissions_create_def request_ok answered_fields)
  moreover have "dr_files ?d' = map (grant fileId (''reader'', ''anyone'')) (dr_files d)"
    by simp
  then have "public_read ?d' fileId"
    unfolding public_read_def by (simp only:) (rule granted_public [OF assms(2)])
  ultimately show ?thesis by blast
qed
lemma granted_kept:
  "list_ex (\<lambda>f. df_id f = j \<and> q \<in> set (df_permissions f)) fs \<Longrightarrow>
   list_ex (\<lambda>f. df_id f = j \<and> q \<in> set (df_permissions f)) (map (grant i p) fs)"
  by (induction fs) (auto simp: grant_def)

lemma setPublicReadPermissions_ids:
  "map df_id (dr_files (snd (setPublicReadPermissions i d))) = map df_id (dr_files d)"
  by (simp add: setPublicReadPermissions_def permissions_create_def request_def answered_def
      df_id_grant)

lemma setPublicReadPermissions_budget:
  "dr_budget (snd (setPublicReadPermissions i d)) = dr_budget d - 1"
  by (simp add: setPublicReadPermissions_def permissions_create_def request_def answered_def)

lemma setPublicReadPermissions_keeps:
  "public_read d j \<Longrightarrow> public_read (snd (setPublicReadPermissions i d)) j"
  by (simp add: setPublicReadPermissions_def permissions_create_def request_def answered_def
      public_read_def granted_kept)

lemma publicar_imagenes_keeps:
  "public_read d j \<Longrightarrow> public_read (publicar_imagenes archivos d) j"
  unfolding publicar_imagenes_def
  by (induction archivos arbitrary: d) (simp_all add: setPublicReadPermissions_keeps)

lemma publicar_imagenes_public:
  "length archivos \<le> dr_budget d \<Longrightarrow> set archivos \<subseteq> set (map df_id (dr_files d)) \<Longrightarrow>
   \<forall>i\<in>set archivos. public_read (publicar_imagenes archivos d) i"
proof (induction archivos arbitrary: d)
  case Nil
  then show ?case by simp
next
  case (Cons a archivos)
  let ?d1 = "snd (setPublicReadPermissions a d)"
  from Cons.prems have b: "0 < dr_budget d" and m: "a \<in> set (map df_id (dr_files d))" by auto
  from setPublicReadPermissions_public [OF b m] have pa: "public_read ?d1 a" by auto
  have step: "publicar_imagenes (a # archivos) d = publicar_imagenes archivos ?d1"
    by (simp add: publicar_imagenes_def)
  from Cons.prems have "length archivos \<le> dr_budget ?d1"
    by (simp add: setPublicReadPermissions_budget)
  moreover from Cons.prems have "set archivos \<subseteq> set (map df_id (dr_files ?d1))"
    by (simp add: setPublicReadPermissions_ids)
  ultimately have "\<forall>i\<in>set archivos. public_read (publicar_imagenes archivos ?d1) i"
    by (rule Cons.IH)
  with publicar_imagenes_keeps [OF pa, of archivos] step show ?case by simp
qed

text \<open>
  C9, as the claim states it, fails: a plain PDF uploaded to an internal folder through
  uploadFile is readable by anyone afterwards.
\<close>

theorem C9_plain_upload_public_counterexample:
  "map df_name (dr_files (snd (uploadFile pedido_pdf (empty_drive 3)))) = [''pedido.pdf'']
   \<and> map df_mimeType (dr_files (snd (uploadFile pedido_pdf (empty_drive 3)))) = [''application/pdf'']
   \<and> public_read (snd (uploadFile pedido_pdf (empty_drive 3))) ''id-0''"
  by (simp add: uploadFile_def pedido_pdf_def public_read_def grant_def drive_defs)

text \<open>
  C9 (amended): every file created through uploadFile is granted public read
  (role reader, type anyone) before its metadata is returned, whatever its type and its
  target folder; and setPublicReadPermissions grants the same to a file that exists
  already, which is how each extracted image of uploadPrototypeExcel gets it.
\<close>

theorem C9_uploadFile_always_public:
  "(3 \<le> dr_budget d \<longrightarrow>
      (\<exists>m d'. uploadFile p d = (Inr m, d')
          \<and> fm_id m = fresh_id (dr_issued d)
          \<and> last (dr_files d')
              = \<lparr>df_id = fresh_id (dr_issued d), df_name = up_name p, df_mimeType = up_mimeType p,
                 df_parents = [up_parentId p], df_trashed = False, df_body = Some (up_buffer p),
                 df_permissions = [(''reader'', ''anyone'')]\<rparr>
          \<and> public_read d' (fresh_id (dr_issued d))))
   \<and> (0 < dr_budget d \<and> fileId \<in> set (map df_id (dr_files d)) \<longrightarrow>
      (\<exists>d'. setPublicReadPermissions fileId d = (Inr (), d') \<and> public_read d' fileId))
   \<and> (length archivos \<le> dr_budget d \<and> set archivos \<subseteq> set (map df_id (dr_files d)) \<longrightarrow>
      (\<forall>i\<in>set archivos. public_read (publicar_imagenes archivos d) i))"
  using uploadFile_public [of d p] setPublicReadPermissions_public [of d fileId]
    publicar_imagenes_public [of archivos d]
  by blast

theorem C9_uploadFile_always_public_witness:
  "fst (uploadFile pedido_pdf (empty_drive 3))
     = Inr \<lparr>fm_id = ''id-0'', fm_name = ''pedido.pdf'', fm_mimeType = ''application/pdf'',
            fm_webContentLink = ''https://drive.google.com/uc?id=id-0'',
            fm_webViewLink = ''https://drive.google.com/file/d/id-0/view''\<rparr>
   \<and> df_permissions (last (dr_files (snd (uploadFile pedido_pdf (empty_drive 3)))))
       = [(''reader'', ''anyone'')]
   \<and> public_read
        (snd (setPublicReadPermissions ''id-0''
                \<lparr>dr_files = [new_folder 0 ''imagen'' ''raiz''], dr_issued = 1, dr_budget = 1,
                 dr_log = []\<rparr>)) ''id-0''
   \<and> public_read
        (publicar_imagenes [''id-0'']
           \<lparr>dr_files = [new_folder 0 ''imagen'' ''raiz''], dr_issued = 1, dr_budget = 1,
            dr_log = []\<rparr>) ''id-0''"
  using C9_uploadFile_always_public [of "empty_drive 3" pedido_pdf "''id-0''" "[]"]
    C9_uploadFile_always_public
      [of "\<lparr>dr_files = [new_folder 0 ''imagen'' ''raiz''], dr_issued = 1, dr_budget = 1,
            dr_log = []\<rparr>" pedido_pdf "''id-0''" "[''id-0'']"]
  by (simp add: uploadFile_def setPublicReadPermissions_def publicar_imagenes_def pedido_pdf_def
      public_read_def grant_def metadata_def drive_defs)

section \<open>Verification: the batch uploads\<close>

lemma allSettled_length: "allSettled f xs w = (rs, w') \<Longrightarrow> length rs = length xs"
  by (induction xs arbitrary: w rs) (auto split: prod.splits)

lemma allSettled_world: "snd (allSettled f xs w) = foldl (\<lambda>w x. snd (f x w)) w xs"
  by (induction xs arbitrary: w) (simp_all add: split_beta)

lemma foldl_clasificar_paso:
  "length files = length rs \<Longrightarrow>
   foldl clasificar_paso (ex, fa) (zip files rs)
     = (ex @ map to_exitoso (fulfilled rs),
        fa @ map (\<lambda>(file, reason). to_fallido file reason) (rejected files rs))"
proof (induction files rs arbitrary: ex fa rule: list_induct2)
  case Nil
  then show ?case by simp
next
  case (Cons x xs r rs)
  then show ?case by (cases r) (simp_all add: clasificar_paso_def)
qed

lemma clasificar_eq:
  "length files = length rs \<Longrightarrow>
   clasificar files rs
     = (map to_exitoso (fulfilled rs),
        map (\<lambda>(file, reason). to_fallido file reason) (rejected files rs))"
  by (simp add: clasificar_def foldl_clasificar_paso)

lemma fulfilled_rejected_length:
  "length xs = length rs \<Longrightarrow> length (fulfilled rs) + length (rejected xs rs) = length rs"
proof (induction xs rs rule: list_induct2)
  case Nil
  then show ?case by simp
next
  case (Cons x xs r rs)
  then show ?case by (cases r) simp_all
qed

lemma uploadBatch_eq:
  assumes "allSettled (\<lambda>file. execute uc \<lparr>pu_file = file, pu_parentFolderId = idCarpeta\<rparr>) files w
             = (resultados, w')"
  shows "uploadBatch uc files idCarpeta w = (batch_response files resultados, w')"
proof -
  from allSettled_length [OF assms] have "length files = length resultados" by simp
  then show ?thesis
    using assms by (simp add: uploadBatch_def clasificar_eq batch_response_def Let_def)
qed

lemma batch_response_accounts:
  assumes "length resultados = length files"
  shows "\<exists>b. res_body (batch_response files resultados) = BatchBody b \<and> accounts_for files b
           \<and> bb_exitosos b = map to_exitoso (fulfilled resultados)
           \<and> fallidos_of b = map (\<lambda>(file, reason). to_fallido file reason) (rejected files resultados)"
  using fulfilled_rejected_length [of files resultados] assms
  by (auto simp: batch_response_def Let_def accounts_for_def fallidos_of_def)


lemma uploadIntrastatPDF_batch:
  assumes "uploadIntrastatPDF driveIds uc req w = (res, w')" "res_body res = BatchBody b"
  shows "\<exists>files idCarpeta w1. ir_files req = Some files \<and> files \<noteq> []
           \<and> uploadBatch uc files idCarpeta w1 = (res, w')"
  using assms
  by (auto simp: uploadIntrastatPDF_def Let_def bad_request_def catch_response_def
      split: if_splits option.splits sum.splits prod.splits)

lemma uploadInventarioPDF_batch:
  assumes "uploadInventarioPDF driveIds uc req w = (res, w')" "res_body res = BatchBody b"
  shows "\<exists>files idCarpeta w1. vr_files req = Some files \<and> files \<noteq> []
           \<and> uploadBatch uc files idCarpeta w1 = (res, w')"
  using assms
  by (auto simp: uploadInventarioPDF_def Let_def bad_request_def catch_response_def
      split: if_splits option.splits sum.splits prod.splits)

lemma uploadBatch_cases:
  "\<exists>resultados. length resultados = length files
     \<and> uploadBatch uc files idCarpeta w = (batch_response files resultados, snd (uploadBatch uc files idCarpeta w))"
proof -
  obtain rs w' where a: "allSettled (\<lambda>file. execute uc \<lparr>pu_file = file, pu_parentFolderId = idCarpeta\<rparr>) files w = (rs, w')"
    by (cases "allSettled (\<lambda>file. execute uc \<lparr>pu_file = file, pu_parentFolderId = idCarpeta\<rparr>) files w")
  from uploadBatch_eq [OF a] allSettled_length [OF a] show ?thesis by auto
qed

lemmas controller_defs = uploadIntrastatPDF_def uploadInventarioPDF_def uploadBatch_def
  clasificar_def clasificar_paso_def to_exitoso_def to_fallido_def archivosInvalidos_def
  bad_request_def catch_response_def or_str_def or_nat_def getIntrastatComprasFolderId_def
  getIntrastatVentasFolderId_def getInventarioFolderID_def getFolderId_def show_nat_def
  char_digit_def fallidos_of_def Let_def

lemma intrastat_mixed:
  "uploadIntrastatPDF stub_driveIds stub_pdf_usecase
      \<lparr>ir_files = Some [pdf ''a.pdf'', pdf ''roto.pdf'', pdf ''c.pdf''], ir_marca = Some ''COMPRA''\<rparr> []
     = (\<lparr>res_status = 207, res_body = BatchBody (mixed_body ''compras/hoy'')\<rparr>,
        [''carpeta del dia'', ''a.pdf'', ''roto.pdf'', ''c.pdf''])"
  by (simp add: controller_defs stub_driveIds_def stub_pdf_usecase_def pdf_def mixed_body_def
      stub_result_def js_Error_def decimal_small)

lemma inventario_mixed:
  "uploadInventarioPDF stub_driveIds stub_pdf_usecase
      \<lparr>vr_files = Some [pdf ''a.pdf'', pdf ''roto.pdf'', pdf ''c.pdf'']\<rparr> []
     = (\<lparr>res_status = 207, res_body = BatchBody (mixed_body ''inventario/hoy'')\<rparr>,
        [''carpeta del dia'', ''a.pdf'', ''roto.pdf'', ''c.pdf''])"
  by (simp add: controller_defs stub_driveIds_def stub_pdf_usecase_def pdf_def mixed_body_def
      stub_result_def js_Error_def decimal_small)







text \<open>
  C2: a batch response of uploadIntrastatPDF and of uploadInventarioPDF accounts for
  every submitted file: the successes and the failures (the failed list is left out of
  the body when empty) are as many as the files, and the summary's total is the number
  of files. In the part the two handlers share this holds for every list of files, the
  empty one included: each file has one settled result, which puts it in exactly one of
  the two lists.
\<close>

theorem C2_batch_accounts_for_every_file:
  "(uploadIntrastatPDF driveIds uc req w = (res, w') \<and> res_body res = BatchBody b \<longrightarrow>
      (\<exists>files. ir_files req = Some files \<and> accounts_for files b))
   \<and> (uploadInventarioPDF driveIds uc vreq w = (res, w') \<and> res_body res = BatchBody b \<longrightarrow>
      (\<exists>files. vr_files vreq = Some files \<and> accounts_for files b))
   \<and> (\<exists>b resultados.
         res_body (fst (uploadBatch uc files idCarpeta w)) = BatchBody b \<and> accounts_for files b
         \<and> length resultados = length files
         \<and> bb_exitosos b = map to_exitoso (fulfilled resultados)
         \<and> fallidos_of b = map (\<lambda>(file, reason). to_fallido file reason) (rejected files resultados))"
proof -
  have shared: "\<exists>b resultados.
         res_body (fst (uploadBatch uc files idCarpeta w)) = BatchBody b \<and> accounts_for files b
         \<and> length resultados = length files
         \<and> bb_exitosos b = map to_exitoso (fulfilled resultados)
         \<and> fallidos_of b = map (\<lambda>(file, reason). to_fallido file reason) (rejected files resultados)"
    for files idCarpeta and w :: 'a
  proof -
    from uploadBatch_cases [of files uc idCarpeta w] obtain resultados
      where l: "length resultados = length files"
        and r: "fst (uploadBatch uc files idCarpeta w) = batch_response files resultados"
      by (metis fst_conv)
    from batch_response_accounts [OF l] r l show ?thesis by auto
  qed
  have via: "accounts_for files b"
    if "uploadBatch uc files idCarpeta w1 = (res, w')" "res_body res = BatchBody b"
    for files idCarpeta and w1 :: 'a
    using shared [of files idCarpeta w1] that by auto
  have intrastat: "\<exists>files. ir_files req = Some files \<and> accounts_for files b"
    if h: "uploadIntrastatPDF driveIds uc req w = (res, w')" "res_body res = BatchBody b"
    using uploadIntrastatPDF_batch [OF h] via h(2) by blast
  have inventario: "\<exists>files. vr_files vreq = Some files \<and> accounts_for files b"
    if h: "uploadInventarioPDF driveIds uc vreq w = (res, w')" "res_body res = BatchBody b"
    using uploadInventarioPDF_batch [OF h] via h(2) by blast
  from intrastat inventario shared show ?thesis by blast
qed

theorem C2_batch_accounts_for_every_file_witness:
  "accounts_for [pdf ''a.pdf'', pdf ''roto.pdf'', pdf ''c.pdf''] (mixed_body ''compras/hoy'')
   \<and> accounts_for [pdf ''a.pdf'', pdf ''roto.pdf'', pdf ''c.pdf''] (mixed_body ''inventario/hoy'')
   \<and> length (bb_exitosos (mixed_body ''compras/hoy'')) + length (fallidos_of (mixed_body ''compras/hoy'')) = 3"
  using C2_batch_accounts_for_every_file [of stub_driveIds stub_pdf_usecase
          "\<lparr>ir_files = Some [pdf ''a.pdf'', pdf ''roto.pdf'', pdf ''c.pdf''], ir_marca = Some ''COMPRA''\<rparr>"
          "[]" "\<lparr>res_status = 207, res_body = BatchBody (mixed_body ''compras/hoy'')\<rparr>"
          "[''carpeta del dia'', ''a.pdf'', ''roto.pdf'', ''c.pdf'']" "mixed_body ''compras/hoy''"]
    C2_batch_accounts_for_every_file [of stub_driveIds stub_pdf_usecase _ "[]"
          "\<lparr>res_status = 207, res_body = BatchBody (mixed_body ''inventario/hoy'')\<rparr>"
          "[''carpeta del dia'', ''a.pdf'', ''roto.pdf'', ''c.pdf'']" "mixed_body ''inventario/hoy''"
          "\<lparr>vr_files = Some [pdf ''a.pdf'', pdf ''roto.pdf'', pdf ''c.pdf'']\<rparr>"]
    intrastat_mixed inventario_mixed
  by (simp add: accounts_for_def)

text \<open>
  C3: the batch settles every file: it has one result per file, and the world it
  returns is the one after the call for the last file, each call made in the world the
  previous one left, whether that one was fulfilled or rejected. The successes and the
  failures are listed in the order of the input; a failure carries the original name
  of its file and the message of its rejection ("Error desconocido" when the rejection
  has none). With three files of which the second fails: two successes, one failure
  named after the second file, status 207.
\<close>

theorem C3_uploadBatch_isolates_failures:
  "(allSettled (\<lambda>file. execute uc \<lparr>pu_file = file, pu_parentFolderId = idCarpeta\<rparr>) files w
      = (resultados, w') \<longrightarrow>
      length resultados = length files
      \<and> w' = foldl (\<lambda>w file. snd (execute uc \<lparr>pu_file = file, pu_parentFolderId = idCarpeta\<rparr> w)) w files
      \<and> (\<exists>res b. uploadBatch uc files idCarpeta w = (res, w') \<and> res_body res = BatchBody b
            \<and> bb_exitosos b = map to_exitoso (fulfilled resultados)
            \<and> fallidos_of b
                = map (\<lambda>(file, reason). to_fallido file reason) (rejected files resultados)))
   \<and> fa_archivo (to_fallido f reason) = originalname f
   \<and> fa_error (to_fallido f reason)
       = (if err_message reason = [] then ''Error desconocido'' else err_message reason)
   \<and> (execute uc \<lparr>pu_file = f1, pu_parentFolderId = idCarpeta\<rparr> w = (Inr r1, w1)
        \<and> execute uc \<lparr>pu_file = f2, pu_parentFolderId = idCarpeta\<rparr> w1 = (Inl e2, w2)
        \<and> execute uc \<lparr>pu_file = f3, pu_parentFolderId = idCarpeta\<rparr> w2 = (Inr r3, w3) \<longrightarrow>
        uploadBatch uc [f1, f2, f3] idCarpeta w
          = (\<lparr>res_status = 207,
              res_body = BatchBody
                \<lparr>bb_message = ''2 de 3 PDF(s) subido(s) correctamente'',
                 bb_exitosos = [to_exitoso r1, to_exitoso r3],
                 bb_fallidos = Some [to_fallido f2 e2],
                 bb_resumen = \<lparr>rs_total = 3, rs_exitosos = 2, rs_fallidos = 1\<rparr>\<rparr>\<rparr>, w3))"
proof -
  let ?f = "\<lambda>file. execute uc \<lparr>pu_file = file, pu_parentFolderId = idCarpeta\<rparr>"
  have general: "length resultados = length files
      \<and> w' = foldl (\<lambda>w file. snd (?f file w)) w files
      \<and> (\<exists>res b. uploadBatch uc files idCarpeta w = (res, w') \<and> res_body res = BatchBody b
            \<and> bb_exitosos b = map to_exitoso (fulfilled resultados)
            \<and> fallidos_of b
                = map (\<lambda>(file, reason). to_fallido file reason) (rejected files resultados))"
    if a: "allSettled ?f files w = (resultados, w')"
  proof -
    note l = allSettled_length [OF a]
    from allSettled_world [of ?f files w] a have "w' = foldl (\<lambda>w file. snd (?f file w)) w files"
      by simp
    with l uploadBatch_eq [OF a] batch_response_accounts [OF l] show ?thesis by auto
  qed
  have scenario: "uploadBatch uc [f1, f2, f3] idCarpeta w
          = (\<lparr>res_status = 207,
              res_body = BatchBody
                \<lparr>bb_message = ''2 de 3 PDF(s) subido(s) correctamente'',
                 bb_exitosos = [to_exitoso r1, to_exitoso r3],
                 bb_fallidos = Some [to_fallido f2 e2],
                 bb_resumen = \<lparr>rs_total = 3, rs_exitosos = 2, rs_fallidos = 1\<rparr>\<rparr>\<rparr>, w3)"
    if "?f f1 w = (Inr r1, w1)" "?f f2 w1 = (Inl e2, w2)" "?f f3 w2 = (Inr r3, w3)"
  proof -
    from that have "allSettled ?f [f1, f2, f3] w = ([Inr r1, Inl e2, Inr r3], w3)" by simp
    from uploadBatch_eq [OF this] show ?thesis
      by (simp add: batch_response_def show_nat_def decimal_small char_digit_def)
  qed
  from general scenario show ?thesis
    by (simp add: to_fallido_def or_str_def)
qed

theorem C3_uploadBatch_isolates_failures_witness:
  "uploadBatch stub_pdf_usecase [pdf ''a.pdf'', pdf ''roto.pdf'', pdf ''c.pdf''] ''hoy'' []
     = (\<lparr>res_status = 207, res_body = BatchBody (mixed_body ''hoy'')\<rparr>,
        [''a.pdf'', ''roto.pdf'', ''c.pdf''])
   \<and> map fa_archivo (fallidos_of (mixed_body ''hoy'')) = [originalname (pdf ''roto.pdf'')]"
  using C3_uploadBatch_isolates_failures [of stub_pdf_usecase "''hoy''" "[pdf ''a.pdf'', pdf ''roto.pdf'', pdf ''c.pdf'']" "[]"
          "[Inr (stub_result ''a.pdf'' ''hoy''), Inl (js_Error ''Drive no responde''),
            Inr (stub_result ''c.pdf'' ''hoy'')]"
          "[''a.pdf'', ''roto.pdf'', ''c.pdf'']"
          "pdf ''roto.pdf''" "js_Error ''Drive no responde''"
          "pdf ''a.pdf''" "stub_result ''a.pdf'' ''hoy''" "[''a.pdf'']"
          "pdf ''roto.pdf''" "js_Error ''Drive no responde''" "[''a.pdf'', ''roto.pdf'']"
          "pdf ''c.pdf''" "stub_result ''c.pdf'' ''hoy''" "[''a.pdf'', ''roto.pdf'', ''c.pdf'']"]
  by (simp add: stub_pdf_usecase_def pdf_def mixed_body_def stub_result_def js_Error_def
      to_exitoso_def to_fallido_def or_str_def fallidos_of_def)

section \<open>Verification: the payroll upload\<close>

lemma subir_detalle_caught:
  "subir_detalle uc folderId archivo w
     = (caught (fst (uploadFileToFolder uc (archivo, folderId) w)),
        snd (uploadFileToFolder uc (archivo, folderId) w))"
  by (simp add: subir_detalle_def caught_def split: prod.splits sum.splits)

lemma allSettled_subir_detalle:
  "allSettled (\<lambda>archivo. uploadFileToFolder uc (archivo, folderId)) archivos w = (raw, w') \<Longrightarrow>
   allSettled (subir_detalle uc folderId) archivos w = (map caught raw, w')"
proof (induction archivos arbitrary: w raw)
  case Nil
  then show ?case by simp
next
  case (Cons a archivos)
  then show ?case
    by (auto simp: subir_detalle_caught split: prod.splits)
qed

lemma not_null_caught: "not_null (map caught raw) = map fm_id (fulfilled raw)"
proof (induction raw)
  case Nil
  then show ?case by (simp add: not_null_def)
next
  case (Cons r raw)
  then show ?case by (cases r) (simp_all add: not_null_def caught_def)
qed

lemma subir_nominas_ok:
  assumes "allSettled (\<lambda>archivo. uploadFileToFolder uc (archivo, folderRetenciones)) archivosDetalle2 w
             = (raw2, w1)"
    and "allSettled (\<lambda>archivo. uploadFileToFolder uc (archivo, folderResumenes)) archivosDetalle1 w1
             = (raw1, w2)"
    and "uploadFileToFolder uc (archivoResumen, folderNominas) w2 = (Inr excelResumen, w3)"
  shows "subir_nominas uc archivoResumen archivosDetalle1 archivosDetalle2
           folderRetenciones folderResumenes folderNominas w
         = (\<lparr>res_status = 200,
             res_body = NominasBody
               \<lparr>nb_id_excel_resumen = fm_id excelResumen,
                nb_ids_retenciones = map fm_id (fulfilled raw2),
                nb_ids_nominas = map fm_id (fulfilled raw1)\<rparr>\<rparr>, w3)"
  using allSettled_subir_detalle [OF assms(1)] allSettled_subir_detalle [OF assms(2)] assms(3)
  by (simp add: subir_nominas_def not_null_caught)

lemma subir_nominas_body:
  "res_body (fst (subir_nominas uc r d1 d2 f1 f2 f3 w)) = NominasBody nb \<Longrightarrow>
   res_status (fst (subir_nominas uc r d1 d2 f1 f2 f3 w)) = 200"
  by (auto simp: subir_nominas_def catch_response_def split: prod.splits sum.splits)

lemma uploadNominasExcels_body:
  fixes w :: 'w
  assumes "res_body (fst (uploadNominasExcels driveIds uc primero req w)) = NominasBody nb"
  shows "res_status (fst (uploadNominasExcels driveIds uc primero req w)) = 200"
proof -
  define good :: "response \<times> 'w \<Rightarrow> bool"
    where "good r \<longleftrightarrow> (\<forall>nb. res_body (fst r) = NominasBody nb \<longrightarrow> res_status (fst r) = 200)" for r
  have 1: "good (bad_request m, v)" for m v
    by (simp add: good_def bad_request_def)
  have 2: "good (catch_response e, v)" for e v
    by (simp add: good_def catch_response_def)
  have 3: "good (subir_nominas uc r d1 d2 f1 f2 f3 v)" for r d1 d2 f1 f2 f3 v
    using subir_nominas_body [of uc r d1 d2 f1 f2 f3 v] by (auto simp: good_def)
  have "good (uploadNominasExcels driveIds uc primero req w)"
    unfolding uploadNominasExcels_def Let_def
    by (simp add: 1 2 3 split: option.split list.split sum.split prod.split)
  with assms show ?thesis by (simp add: good_def)
qed

lemma crear_subcarpetas_ok:
  assumes "createFolderIfNotExists uc (''RETENCIONES'', folderAnoMes) w = (Inr folderRetenciones, w1)"
    and "createFolderIfNotExists uc (''RESUMEN'', folderAnoMes) w1 = (Inr folderResumenes, w2)"
    and "createFolderIfNotExists uc (''NOMINAS'', folderAnoMesNomina) w2 = (Inr folderNominas, w3)"
  shows "crear_subcarpetas uc primero folderAnoMes folderAnoMesNomina w
           = (Inr (folderRetenciones, folderResumenes, folderNominas), w3)"
  using assms by (simp add: crear_subcarpetas_def first_rejection_def)

lemma uploadNominasExcels_valid:
  assumes req: "nq_archivoResumen req = Some (archivoResumen # otros)"
      "nq_archivosDetalle1 req = Some archivosDetalle1" "archivosDetalle1 \<noteq> []"
      "nq_archivosDetalle2 req = Some archivosDetalle2" "archivosDetalle2 \<noteq> []"
      "nq_anio req = Some anio" "anio \<noteq> []" "nq_mes req = Some mes" "mes \<noteq> []"
    and excel: "\<forall>file \<in> set (archivoResumen # archivosDetalle1 @ archivosDetalle2).
                  toLowerCase (mimetype file) \<in> set excelMimeTypes"
    and ids: "driveIds ''nominas_asesorias'' = Some parentFolderIdAsesorias"
      "parentFolderIdAsesorias \<noteq> []"
      "driveIds ''nominas_nominas'' = Some parentFolderIdNominas" "parentFolderIdNominas \<noteq> []"
    and paso1: "getOrCreateMesAnio uc (parentFolderIdAsesorias, mes, anio) v = (Inr folderAnoMes, va)"
      "getOrCreateMesAnio uc (parentFolderIdNominas, mes, anio) va = (Inr folderAnoMesNomina, vb)"
    and paso2: "crear_subcarpetas uc primero folderAnoMes folderAnoMesNomina vb
                  = (Inr (folderRetenciones, folderResumenes, folderNominas), w)"
  shows "uploadNominasExcels driveIds uc primero req v
           = subir_nominas uc archivoResumen archivosDetalle1 archivosDetalle2
               folderRetenciones folderResumenes folderNominas w"
proof -
  from excel
  have "filter (\<lambda>file. toLowerCase (mimetype file) \<notin> set excelMimeTypes)
          (archivoResumen # archivosDetalle1 @ archivosDetalle2) = []"
    by (simp only: filter_empty_conv) blast
  with req ids paso1 paso2 show ?thesis
    by (simp add: uploadNominasExcels_def or_str_def getNominasAsesoriasFolderID_def
        getNominasNominasFolderID_def getFolderId_def del: filter.simps filter_append)
qed

lemmas nominas_defs = uploadNominasExcels_def subir_nominas_def crear_subcarpetas_def
  first_rejection_def subir_detalle_def not_null_def bad_request_def catch_response_def
  or_str_def or_nat_def getNominasAsesoriasFolderID_def getNominasNominasFolderID_def
  getFolderId_def toLowerCase_def lower_char_def excelMimeTypes_def Let_def

lemma nominas_one_failed:
  "uploadNominasExcels stub_driveIds stub_excel_usecase primero
      (nominas_request_of [xls ''ret.xls'', xls ''roto.xls'']) []
     = (\<lparr>res_status = 200,
         res_body = NominasBody
           \<lparr>nb_id_excel_resumen = ''id:nominas.xls'', nb_ids_retenciones = [''id:ret.xls''],
            nb_ids_nominas = [''id:resumen.xls'']\<rparr>\<rparr>,
        [''mes'', ''mes'', ''RETENCIONES'', ''RESUMEN'', ''NOMINAS'', ''ret.xls'', ''roto.xls'',
         ''resumen.xls'', ''nominas.xls''])"
  by (simp add: nominas_defs stub_driveIds_def stub_excel_usecase_def nominas_request_of_def
      xls_def js_Error_def)

lemma nominas_all_ok:
  "uploadNominasExcels stub_driveIds stub_excel_usecase primero
      (nominas_request_of [xls ''ret.xls'']) []
     = (\<lparr>res_status = 200,
         res_body = NominasBody
           \<lparr>nb_id_excel_resumen = ''id:nominas.xls'', nb_ids_retenciones = [''id:ret.xls''],
            nb_ids_nominas = [''id:resumen.xls'']\<rparr>\<rparr>,
        [''mes'', ''mes'', ''RETENCIONES'', ''RESUMEN'', ''NOMINAS'', ''ret.xls'',
         ''resumen.xls'', ''nominas.xls''])"
  by (simp add: nominas_defs stub_driveIds_def stub_excel_usecase_def nominas_request_of_def
      xls_def js_Error_def)

text \<open>
  C10: in uploadNominasExcels a detail upload that fails is caught in its own task,
  which resolves to null; the nulls are filtered out; and when the summary file is
  uploaded the answer is 200 with the ids of the successful uploads only. The handler
  answers a request that passes its checks (the summary file, detail files in both
  lists, year and month, Excel MIME types, the two folders configured) and whose
  folders are resolved in just this way: 200, the id of the summary file, and of the
  detail files the ids of those whose upload was fulfilled, whatever became of the
  others. A body of that shape has no failure count and no failure list, and always
  goes with status 200. So a batch with a failed detail file (roto.xls) gets the very
  response of the batch without that file, in which nothing failed.
\<close>

theorem C10_nominas_failures_silent:
  "fst (subir_detalle uc folderId archivo w)
     = Inr (case fst (uploadFileToFolder uc (archivo, folderId) w) of
              Inr result \<Rightarrow> Some (fm_id result) | Inl error \<Rightarrow> None)
   \<and> (allSettled (\<lambda>archivo. uploadFileToFolder uc (archivo, folderRetenciones)) archivosDetalle2 w
          = (raw2, w1)
        \<and> allSettled (\<lambda>archivo. uploadFileToFolder uc (archivo, folderResumenes)) archivosDetalle1 w1
          = (raw1, w2)
        \<and> uploadFileToFolder uc (archivoResumen, folderNominas) w2 = (Inr excelResumen, w3) \<longrightarrow>
        subir_nominas uc archivoResumen archivosDetalle1 archivosDetalle2
            folderRetenciones folderResumenes folderNominas w
          = (\<lparr>res_status = 200,
              res_body = NominasBody
                \<lparr>nb_id_excel_resumen = fm_id excelResumen,
                 nb_ids_retenciones = map fm_id (fulfilled raw2),
                 nb_ids_nominas = map fm_id (fulfilled raw1)\<rparr>\<rparr>, w3))
   \<and> (res_body (fst (uploadNominasExcels driveIds uc primero req w)) = NominasBody nb \<longrightarrow>
        res_status (fst (uploadNominasExcels driveIds uc primero req w)) = 200)
   \<and> fst (uploadFileToFolder stub_excel_usecase (xls ''roto.xls'', folderId) calls)
       = Inl (js_Error ''Drive no responde'')
   \<and> fst (uploadNominasExcels stub_driveIds stub_excel_usecase primero
             (nominas_request_of [xls ''ret.xls'', xls ''roto.xls'']) [])
       = fst (uploadNominasExcels stub_driveIds stub_excel_usecase primero
                (nominas_request_of [xls ''ret.xls'']) [])
   \<and> res_status (fst (uploadNominasExcels stub_driveIds stub_excel_usecase primero
                         (nominas_request_of [xls ''ret.xls'', xls ''roto.xls'']) [])) = 200
   \<and> (nq_archivoResumen req = Some (archivoResumen # otros)
        \<and> nq_archivosDetalle1 req = Some archivosDetalle1 \<and> archivosDetalle1 \<noteq> []
        \<and> nq_archivosDetalle2 req = Some archivosDetalle2 \<and> archivosDetalle2 \<noteq> []
        \<and> nq_anio req = Some anio \<and> anio \<noteq> [] \<and> nq_mes req = Some mes \<and> mes \<noteq> []
        \<and> (\<forall>file \<in> set (archivoResumen # archivosDetalle1 @ archivosDetalle2).
              toLowerCase (mimetype file) \<in> set excelMimeTypes)
        \<and> driveIds ''nominas_asesorias'' = Some parentFolderIdAsesorias
        \<and> parentFolderIdAsesorias \<noteq> []
        \<and> driveIds ''nominas_nominas'' = Some parentFolderIdNominas
        \<and> parentFolderIdNominas \<noteq> []
        \<and> getOrCreateMesAnio uc (parentFolderIdAsesorias, mes, anio) v = (Inr folderAnoMes, va)
        \<and> getOrCreateMesAnio uc (parentFolderIdNominas, mes, anio) va
            = (Inr folderAnoMesNomina, vb)
        \<and> createFolderIfNotExists uc (''RETENCIONES'', folderAnoMes) vb
            = (Inr folderRetenciones, vc)
        \<and> createFolderIfNotExists uc (''RESUMEN'', folderAnoMes) vc = (Inr folderResumenes, vd)
        \<and> createFolderIfNotExists uc (''NOMINAS'', folderAnoMesNomina) vd = (Inr folderNominas, w)
        \<and> allSettled (\<lambda>archivo. uploadFileToFolder uc (archivo, folderRetenciones)) archivosDetalle2 w
            = (raw2, w1)
        \<and> allSettled (\<lambda>archivo. uploadFileToFolder uc (archivo, folderResumenes)) archivosDetalle1 w1
            = (raw1, w2)
        \<and> uploadFileToFolder uc (archivoResumen, folderNominas) w2 = (Inr excelResumen, w3) \<longrightarrow>
        uploadNominasExcels driveIds uc primero req v
          = (\<lparr>res_status = 200,
              res_body = NominasBody
                \<lparr>nb_id_excel_resumen = fm_id excelResumen,
                 nb_ids_retenciones = map fm_id (fulfilled raw2),
                 nb_ids_nominas = map fm_id (fulfilled raw1)\<rparr>\<rparr>, w3))"
proof -
  have roto: "fst (uploadFileToFolder stub_excel_usecase (xls ''roto.xls'', folderId) calls)
          = Inl (js_Error ''Drive no responde'')"
    by (simp add: stub_excel_usecase_def xls_def)
  note paso3 = subir_nominas_ok [of uc folderRetenciones archivosDetalle2 w raw2 w1 folderResumenes
        archivosDetalle1 raw1 w2 archivoResumen folderNominas excelResumen w3]
  have handler: "uploadNominasExcels driveIds uc primero req v
          = (\<lparr>res_status = 200,
              res_body = NominasBody
                \<lparr>nb_id_excel_resumen = fm_id excelResumen,
                 nb_ids_retenciones = map fm_id (fulfilled raw2),
                 nb_ids_nominas = map fm_id (fulfilled raw1)\<rparr>\<rparr>, w3)"
    if "nq_archivoResumen req = Some (archivoResumen # otros)"
      "nq_archivosDetalle1 req = Some archivosDetalle1" "archivosDetalle1 \<noteq> []"
      "nq_archivosDetalle2 req = Some archivosDetalle2" "archivosDetalle2 \<noteq> []"
      "nq_anio req = Some anio" "anio \<noteq> []" "nq_mes req = Some mes" "mes \<noteq> []"
      "\<forall>file \<in> set (archivoResumen # archivosDetalle1 @ archivosDetalle2).
          toLowerCase (mimetype file) \<in> set excelMimeTypes"
      "driveIds ''nominas_asesorias'' = Some parentFolderIdAsesorias"
      "parentFolderIdAsesorias \<noteq> []"
      "driveIds ''nominas_nominas'' = Some parentFolderIdNominas" "parentFolderIdNominas \<noteq> []"
      "getOrCreateMesAnio uc (parentFolderIdAsesorias, mes, anio) v = (Inr folderAnoMes, va)"
      "getOrCreateMesAnio uc (parentFolderIdNominas, mes, anio) va = (Inr folderAnoMesNomina, vb)"
      "createFolderIfNotExists uc (''RETENCIONES'', folderAnoMes) vb = (Inr folderRetenciones, vc)"
      "createFolderIfNotExists uc (''RESUMEN'', folderAnoMes) vc = (Inr folderResumenes, vd)"
      "createFolderIfNotExists uc (''NOMINAS'', folderAnoMesNomina) vd = (Inr folderNominas, w)"
      "allSettled (\<lambda>archivo. uploadFileToFolder uc (archivo, folderRetenciones)) archivosDetalle2 w
         = (raw2, w1)"
      "allSettled (\<lambda>archivo. uploadFileToFolder uc (archivo, folderResumenes)) archivosDetalle1 w1
         = (raw1, w2)"
      "uploadFileToFolder uc (archivoResumen, folderNominas) w2 = (Inr excelResumen, w3)"
  proof -
    note p2 = crear_subcarpetas_ok [OF that(17,18,19), of primero]
    from uploadNominasExcels_valid [OF that(1-16) p2] paso3 [OF that(20,21,22)]
    show ?thesis by simp
  qed
  have first: "fst (subir_detalle uc folderId archivo w)
     = Inr (case fst (uploadFileToFolder uc (archivo, folderId) w) of
              Inr result \<Rightarrow> Some (fm_id result) | Inl error \<Rightarrow> None)"
    by (simp add: subir_detalle_caught caught_def)
  have stubs: "fst (uploadNominasExcels stub_driveIds stub_excel_usecase primero
             (nominas_request_of [xls ''ret.xls'', xls ''roto.xls'']) [])
       = fst (uploadNominasExcels stub_driveIds stub_excel_usecase primero
                (nominas_request_of [xls ''ret.xls'']) [])
   \<and> res_status (fst (uploadNominasExcels stub_driveIds stub_excel_usecase primero
                         (nominas_request_of [xls ''ret.xls'', xls ''roto.xls'']) [])) = 200"
    by (simp add: nominas_one_failed nominas_all_ok)
  from first roto stubs paso3 handler uploadNominasExcels_body [of driveIds uc primero req w nb]
  show ?thesis by blast
qed

theorem C10_nominas_failures_silent_witness:
  "subir_nominas stub_excel_usecase (xls ''nominas.xls'') [xls ''resumen.xls'']
       [xls ''ret.xls'', xls ''roto.xls''] ''asesorias/2026/02/RETENCIONES''
       ''asesorias/2026/02/RESUMEN'' ''nominas/2026/02/NOMINAS''
       [''mes'', ''mes'', ''RETENCIONES'', ''RESUMEN'', ''NOMINAS'']
     = (\<lparr>res_status = 200,
         res_body = NominasBody
           \<lparr>nb_id_excel_resumen = ''id:nominas.xls'', nb_ids_retenciones = [''id:ret.xls''],
            nb_ids_nominas = [''id:resumen.xls'']\<rparr>\<rparr>,
        [''mes'', ''mes'', ''RETENCIONES'', ''RESUMEN'', ''NOMINAS'', ''ret.xls'', ''roto.xls'',
         ''resumen.xls'', ''nominas.xls''])
   \<and> uploadNominasExcels stub_driveIds stub_excel_usecase 0
        (nominas_request_of [xls ''ret.xls'', xls ''roto.xls'']) []
     = (\<lparr>res_status = 200,
         res_body = NominasBody
           \<lparr>nb_id_excel_resumen = ''id:nominas.xls'', nb_ids_retenciones = [''id:ret.xls''],
            nb_ids_nominas = [''id:resumen.xls'']\<rparr>\<rparr>,
        [''mes'', ''mes'', ''RETENCIONES'', ''RESUMEN'', ''NOMINAS'', ''ret.xls'', ''roto.xls'',
         ''resumen.xls'', ''nominas.xls''])
   \<and> res_status (fst (uploadNominasExcels stub_driveIds stub_excel_usecase 0
                         (nominas_request_of [xls ''ret.xls'', xls ''roto.xls'']) [])) = 200
   \<and> allSettled (\<lambda>archivo. uploadFileToFolder stub_excel_usecase
                               (archivo, ''asesorias/2026/02/RETENCIONES''))
        [xls ''ret.xls'', xls ''roto.xls'']
        [''mes'', ''mes'', ''RETENCIONES'', ''RESUMEN'', ''NOMINAS'']
       = ([Inr \<lparr>fm_id = ''id:ret.xls'', fm_name = ''ret.xls'',
                 fm_mimeType = ''application/vnd.ms-excel'', fm_webContentLink = [],
                 fm_webViewLink = []\<rparr>, Inl (js_Error ''Drive no responde'')],
          [''mes'', ''mes'', ''RETENCIONES'', ''RESUMEN'', ''NOMINAS'', ''ret.xls'', ''roto.xls''])"
proof -
  let ?ok = "\<lambda>name. \<lparr>fm_id = ''id:'' @ name, fm_name = name,
                       fm_mimeType = ''application/vnd.ms-excel'', fm_webContentLink = [],
                       fm_webViewLink = []\<rparr>"
  let ?req = "nominas_request_of [xls ''ret.xls'', xls ''roto.xls'']"
  have req: "nq_archivoResumen ?req = Some [xls ''nominas.xls'']"
    "nq_archivosDetalle1 ?req = Some [xls ''resumen.xls'']"
    "nq_archivosDetalle2 ?req = Some [xls ''ret.xls'', xls ''roto.xls'']"
    "nq_anio ?req = Some ''2026''" "nq_mes ?req = Some ''02''"
    by (simp_all add: nominas_request_of_def)
  have excel: "\<forall>file \<in> set (xls ''nominas.xls'' # [xls ''resumen.xls''] @ [xls ''ret.xls'', xls ''roto.xls'']).
                 toLowerCase (mimetype file) \<in> set excelMimeTypes"
    by (simp add: xls_def toLowerCase_def lower_char_def excelMimeTypes_def)
  have ids: "stub_driveIds ''nominas_asesorias'' = Some ''asesorias''"
    "stub_driveIds ''nominas_nominas'' = Some ''nominas''"
    by (simp_all add: stub_driveIds_def)
  have paso1: "getOrCreateMesAnio stub_excel_usecase (''asesorias'', ''02'', ''2026'') []
                 = (Inr ''asesorias/2026/02'', [''mes''])"
    "getOrCreateMesAnio stub_excel_usecase (''nominas'', ''02'', ''2026'') [''mes'']
                 = (Inr ''nominas/2026/02'', [''mes'', ''mes''])"
    by (simp_all add: stub_excel_usecase_def)
  have paso2: "createFolderIfNotExists stub_excel_usecase (''RETENCIONES'', ''asesorias/2026/02'')
                  [''mes'', ''mes'']
                 = (Inr ''asesorias/2026/02/RETENCIONES'', [''mes'', ''mes'', ''RETENCIONES''])"
    "createFolderIfNotExists stub_excel_usecase (''RESUMEN'', ''asesorias/2026/02'')
                  [''mes'', ''mes'', ''RETENCIONES'']
                 = (Inr ''asesorias/2026/02/RESUMEN'', [''mes'', ''mes'', ''RETENCIONES'', ''RESUMEN''])"
    "createFolderIfNotExists stub_excel_usecase (''NOMINAS'', ''nominas/2026/02'')
                  [''mes'', ''mes'', ''RETENCIONES'', ''RESUMEN'']
                 = (Inr ''nominas/2026/02/NOMINAS'',
                    [''mes'', ''mes'', ''RETENCIONES'', ''RESUMEN'', ''NOMINAS''])"
    by (simp_all add: stub_excel_usecase_def)
  have paso3: "allSettled (\<lambda>archivo. uploadFileToFolder stub_excel_usecase
                               (archivo, ''asesorias/2026/02/RETENCIONES''))
        [xls ''ret.xls'', xls ''roto.xls'']
        [''mes'', ''mes'', ''RETENCIONES'', ''RESUMEN'', ''NOMINAS'']
       = ([Inr (?ok ''ret.xls''), Inl (js_Error ''Drive no responde'')],
          [''mes'', ''mes'', ''RETENCIONES'', ''RESUMEN'', ''NOMINAS'', ''ret.xls'', ''roto.xls''])"
    "allSettled (\<lambda>archivo. uploadFileToFolder stub_excel_usecase
                               (archivo, ''asesorias/2026/02/RESUMEN''))
        [xls ''resumen.xls'']
        [''mes'', ''mes'', ''RETENCIONES'', ''RESUMEN'', ''NOMINAS'', ''ret.xls'', ''roto.xls'']
       = ([Inr (?ok ''resumen.xls'')],
          [''mes'', ''mes'', ''RETENCIONES'', ''RESUMEN'', ''NOMINAS'', ''ret.xls'', ''roto.xls'',
           ''resumen.xls''])"
    "uploadFileToFolder stub_excel_usecase (xls ''nominas.xls'', ''nominas/2026/02/NOMINAS'')
        [''mes'', ''mes'', ''RETENCIONES'', ''RESUMEN'', ''NOMINAS'', ''ret.xls'', ''roto.xls'',
         ''resumen.xls'']
       = (Inr (?ok ''nominas.xls''),
          [''mes'', ''mes'', ''RETENCIONES'', ''RESUMEN'', ''NOMINAS'', ''ret.xls'', ''roto.xls'',
           ''resumen.xls'', ''nominas.xls''])"
    by (simp_all add: stub_excel_usecase_def xls_def)
  from C10_nominas_failures_silent
    [where uc = stub_excel_usecase and driveIds = stub_driveIds and primero = 0 and req = ?req
       and archivoResumen = "xls ''nominas.xls''" and otros = "[]"
       and ?archivosDetalle1.0 = "[xls ''resumen.xls'']"
       and ?archivosDetalle2.0 = "[xls ''ret.xls'', xls ''roto.xls'']"
       and anio = "''2026''" and mes = "''02''"
       and parentFolderIdAsesorias = "''asesorias''" and parentFolderIdNominas = "''nominas''"
       and v = "[]" and folderAnoMes = "''asesorias/2026/02''" and va = "[''mes'']"
       and folderAnoMesNomina = "''nominas/2026/02''" and vb = "[''mes'', ''mes'']"
       and folderRetenciones = "''asesorias/2026/02/RETENCIONES''"
       and vc = "[''mes'', ''mes'', ''RETENCIONES'']"
       and folderResumenes = "''asesorias/2026/02/RESUMEN''"
       and vd = "[''mes'', ''mes'', ''RETENCIONES'', ''RESUMEN'']"
       and folderNominas = "''nominas/2026/02/NOMINAS''"
       and w = "[''mes'', ''mes'', ''RETENCIONES'', ''RESUMEN'', ''NOMINAS'']"
       and ?raw2.0 = "[Inr (?ok ''ret.xls''), Inl (js_Error ''Drive no responde'')]"
       and ?w1.0 = "[''mes'', ''mes'', ''RETENCIONES'', ''RESUMEN'', ''NOMINAS'', ''ret.xls'',
                     ''roto.xls'']"
       and ?raw1.0 = "[Inr (?ok ''resumen.xls'')]"
       and ?w2.0 = "[''mes'', ''mes'', ''RETENCIONES'', ''RESUMEN'', ''NOMINAS'', ''ret.xls'',
                     ''roto.xls'', ''resumen.xls'']"
       and excelResumen = "?ok ''nominas.xls''"
       and ?w3.0 = "[''mes'', ''mes'', ''RETENCIONES'', ''RESUMEN'', ''NOMINAS'', ''ret.xls'',
                     ''roto.xls'', ''resumen.xls'', ''nominas.xls'']"
       and nb = "\<lparr>nb_id_excel_resumen = ''id:nominas.xls'', nb_ids_retenciones = [''id:ret.xls''],
                  nb_ids_nominas = [''id:resumen.xls'']\<rparr>"]
    req excel ids paso1 paso2 paso3
  show ?thesis by simp
qed

end
